theory Spec2Isabelle
  imports Complex_Main
begin

section \<open>Numbers, time and exceptions\<close>

text \<open>
  The services compute with Python floats. They are modelled by \<^typ>\<open>real\<close>: every
  comparison and every formula below is the source's, taken over exact arithmetic, so
  rounding of binary floating point is left out. A naive \<open>datetime\<close> is modelled as
  the number of microseconds since a fixed midnight, and a \<open>timedelta\<close> as a number of
  microseconds. \<open>datetime.utcnow()\<close> is a parameter \<open>now\<close> of every function that
  reads the clock.
\<close>

type_synonym datetime = int

definition timedelta_hours :: "int \<Rightarrow> int" where
  "timedelta_hours h = h * 3600000000"

definition timedelta_days :: "int \<Rightarrow> int" where
  "timedelta_days d = d * 86400000000"

text \<open>\<open>(a - b).total_seconds() / 3600\<close> of the source.\<close>

definition hours_between :: "datetime \<Rightarrow> datetime \<Rightarrow> real" where
  "hours_between a b = real_of_int (a - b) / 1000000 / 3600"

datatype py_error =
    ZeroDivisionError
  | TypeError
  | ValueError
  | DataQualityViolation string
  | SQLAlchemyError
  | RuleFailure string

text \<open>Python's \<open>/\<close> raises on a zero divisor, for \<open>int\<close> and \<open>float\<close> alike.\<close>

definition py_truediv :: "real \<Rightarrow> real \<Rightarrow> py_error + real" where
  "py_truediv a b = (if b = 0 then Inl ZeroDivisionError else Inr (a / b))"

text \<open>
  \<open>max(...)\<close> over a generator: the largest element, \<open>ValueError\<close> on an empty one.
\<close>

fun py_max :: "real list \<Rightarrow> py_error + real" where
  "py_max [] = Inl ValueError"
| "py_max (x # xs) = Inr (fold max xs x)"

section \<open>Data model\<close>

text \<open>\<open>app/core/exceptions.py\<close>: the string-valued enumerations.\<close>

datatype ViolationSeverity = CRITICAL | HIGH | MEDIUM | LOW | INFO

fun severity_value :: "ViolationSeverity \<Rightarrow> string" where
  "severity_value CRITICAL = ''CRITICAL''"
| "severity_value HIGH = ''HIGH''"
| "severity_value MEDIUM = ''MEDIUM''"
| "severity_value LOW = ''LOW''"
| "severity_value INFO = ''INFO''"

datatype ViolationType =
    TRANSACTION_LIMIT | SUSPICIOUS_PATTERN | REGULATORY_BREACH | DATA_QUALITY
  | AUTHORIZATION | REPORTING | RISK_THRESHOLD

fun type_value :: "ViolationType \<Rightarrow> string" where
  "type_value TRANSACTION_LIMIT = ''TRANSACTION_LIMIT''"
| "type_value SUSPICIOUS_PATTERN = ''SUSPICIOUS_PATTERN''"
| "type_value REGULATORY_BREACH = ''REGULATORY_BREACH''"
| "type_value DATA_QUALITY = ''DATA_QUALITY''"
| "type_value AUTHORIZATION = ''AUTHORIZATION''"
| "type_value REPORTING = ''REPORTING''"
| "type_value RISK_THRESHOLD = ''RISK_THRESHOLD''"

text \<open>
  \<open>app/models/transaction.py\<close>, class \<open>Transaction\<close>. The fields carry the prefix
  \<open>t_\<close> (two models share field names). The primary key \<open>id\<close> is assigned by the
  insert, so it is optional; \<open>location_country\<close> and \<open>transaction_channel\<close> are
  nullable columns. The free-text and counterparty columns take no part in any decision
  and are left out.
\<close>

record Transaction =
  t_id :: "int option"
  t_transaction_id :: string
  t_account_id :: string
  t_amount :: real
  t_currency :: string
  t_transaction_type :: string
  t_transaction_channel :: "string option"
  t_location_country :: "string option"
  t_transaction_timestamp :: datetime
  t_is_flagged :: bool
  t_risk_score :: real
  t_compliance_status :: string

text \<open>The values a \<open>violation_data\<close> JSON object holds.\<close>

datatype json = JNum real | JInt int | JStr string | JBool bool | JNull

text \<open>
  \<open>app/models/compliance.py\<close>, class \<open>ComplianceViolation\<close>, fields prefixed
  \<open>v_\<close>. \<open>status\<close> and \<open>detected_at\<close> have column defaults that the insert fills
  in, so an object a rule has just built holds \<open>None\<close> there. The \<open>description\<close>
  (formatted prose) is left out.
\<close>

record ComplianceViolation =
  v_violation_type :: string
  v_severity :: string
  v_title :: string
  v_regulatory_framework :: string
  v_standard_reference :: string
  v_requirement_id :: string
  v_transaction_id :: "int option"
  v_risk_score :: real
  v_confidence_score :: real
  v_status :: "string option"
  v_assigned_to :: "string option"
  v_resolution_notes :: "string option"
  v_detected_at :: "datetime option"
  v_resolved_at :: "datetime option"
  v_violation_data :: "(string \<times> json) list"
  v_remediation_actions :: "string list"

text \<open>
  The evaluation context is the dictionary \<open>_build_evaluation_context\<close> returns; a
  rule reads it with \<open>context.get("recent_transactions", [])\<close>, so the key may be absent
  (\<open>None\<close> here).
\<close>

record eval_context =
  recent_transactions :: "Transaction list option"
  ctx_account_id :: string
  evaluation_timestamp :: datetime

section \<open>The rules of \<open>app/services/compliance_service.py\<close>\<close>

subsection \<open>APRATransactionLimitRule\<close>

definition limit_violation :: "real \<Rightarrow> Transaction \<Rightarrow> real \<Rightarrow> ComplianceViolation" where
  "limit_violation limit_amount transaction q =
     \<lparr> v_violation_type = type_value TRANSACTION_LIMIT,
       v_severity = severity_value HIGH,
       v_title = ''Transaction Limit Exceeded - APRA '' @ ''CPS 234'',
       v_regulatory_framework = ''APRA'',
       v_standard_reference = ''CPS 234'',
       v_requirement_id = ''CPS234-TXN-001'',
       v_transaction_id = None,
       v_risk_score = min q 10.0,
       v_confidence_score = 1.0,
       v_status = None,
       v_assigned_to = None,
       v_resolution_notes = None,
       v_detected_at = None,
       v_resolved_at = None,
       v_violation_data =
         [(''transaction_amount'', JNum (t_amount transaction)),
          (''limit_amount'', JNum limit_amount),
          (''excess_amount'', JNum (t_amount transaction - limit_amount)),
          (''violation_percentage'', JNum (q * 100))],
       v_remediation_actions =
         [''Review transaction authorization'',
          ''Verify customer identity'',
          ''Check for suspicious activity'',
          ''Report to AUSTRAC if required''] \<rparr>"

text \<open>
  \<open>APRATransactionLimitRule.evaluate\<close>. The quotient \<open>amount / limit_amount\<close> is
  computed for the risk score and again for the percentage; \<open>q\<close> stands for both.
\<close>

definition limit_evaluate ::
  "real \<Rightarrow> Transaction \<Rightarrow> eval_context \<Rightarrow> py_error + ComplianceViolation option" where
  "limit_evaluate limit_amount transaction ctx =
     (if t_amount transaction > limit_amount then
        (case py_truediv (t_amount transaction) limit_amount of
           Inl e \<Rightarrow> Inl e
         | Inr q \<Rightarrow> Inr (Some (limit_violation limit_amount transaction q)))
      else Inr None)"

subsection \<open>APRAVelocityRule\<close>

definition velocity_violation ::
  "int \<Rightarrow> real \<Rightarrow> Transaction \<Rightarrow> ViolationSeverity \<Rightarrow> int \<Rightarrow> real \<Rightarrow> real \<Rightarrow> real
     \<Rightarrow> ComplianceViolation" where
  "velocity_violation max_transactions_per_hour max_amount_per_hour transaction severity
       transaction_count total_amount qc qa =
     \<lparr> v_violation_type = type_value SUSPICIOUS_PATTERN,
       v_severity = severity_value severity,
       v_title = ''Transaction Velocity Violation - APRA '' @ ''CPS 234'',
       v_regulatory_framework = ''APRA'',
       v_standard_reference = ''CPS 234'',
       v_requirement_id = ''CPS234-VEL-001'',
       v_transaction_id = None,
       v_risk_score = max qc qa,
       v_confidence_score = 0.9,
       v_status = None,
       v_assigned_to = None,
       v_resolution_notes = None,
       v_detected_at = None,
       v_resolved_at = None,
       v_violation_data =
         [(''transaction_count'', JInt transaction_count),
          (''max_transactions'', JInt max_transactions_per_hour),
          (''total_amount'', JNum total_amount),
          (''max_amount'', JNum max_amount_per_hour),
          (''time_window_hours'', JInt 1),
          (''account_id'', JStr (t_account_id transaction))],
       v_remediation_actions =
         [''Freeze account temporarily'',
          ''Contact customer for verification'',
          ''Review transaction patterns'',
          ''Escalate to compliance team''] \<rparr>"

text \<open>\<open>context.get("recent_transactions", [])\<close>.\<close>

definition get_recent_transactions :: "eval_context \<Rightarrow> Transaction list" where
  "get_recent_transactions ctx =
     (case recent_transactions ctx of None \<Rightarrow> [] | Some ts \<Rightarrow> ts)"

text \<open>The list comprehension of \<open>APRAVelocityRule.evaluate\<close>.\<close>

definition recent_hour_transactions ::
  "datetime \<Rightarrow> Transaction \<Rightarrow> eval_context \<Rightarrow> Transaction list" where
  "recent_hour_transactions now transaction ctx =
     (let recent = get_recent_transactions ctx;
          one_hour_ago = now - timedelta_hours 1
      in filter (\<lambda>t. t_transaction_timestamp t \<ge> one_hour_ago
                      \<and> t_account_id t = t_account_id transaction) recent)"

definition velocity_count :: "datetime \<Rightarrow> Transaction \<Rightarrow> eval_context \<Rightarrow> int" where
  "velocity_count now transaction ctx =
     int (length (recent_hour_transactions now transaction ctx)) + 1"

definition velocity_total :: "datetime \<Rightarrow> Transaction \<Rightarrow> eval_context \<Rightarrow> real" where
  "velocity_total now transaction ctx =
     sum_list (map t_amount (recent_hour_transactions now transaction ctx))
       + t_amount transaction"

text \<open>
  \<open>APRAVelocityRule.evaluate\<close>. Both quotients are arguments of \<open>max\<close>, so both are
  computed (and either may raise) before the violation is built.
\<close>

definition velocity_evaluate ::
  "int \<Rightarrow> real \<Rightarrow> datetime \<Rightarrow> Transaction \<Rightarrow> eval_context
     \<Rightarrow> py_error + ComplianceViolation option" where
  "velocity_evaluate max_transactions_per_hour max_amount_per_hour now transaction ctx =
     (let transaction_count = velocity_count now transaction ctx;
          total_amount = velocity_total now transaction ctx
      in if transaction_count > max_transactions_per_hour
            \<or> total_amount > max_amount_per_hour then
           (let severity = (if transaction_count > max_transactions_per_hour * 2
                            then CRITICAL else HIGH)
            in case py_truediv (real_of_int transaction_count)
                      (real_of_int max_transactions_per_hour) of
                 Inl e \<Rightarrow> Inl e
               | Inr qc \<Rightarrow>
                   (case py_truediv total_amount max_amount_per_hour of
                      Inl e \<Rightarrow> Inl e
                    | Inr qa \<Rightarrow>
                        Inr (Some (velocity_violation max_transactions_per_hour
                                     max_amount_per_hour transaction severity
                                     transaction_count total_amount qc qa))))
         else Inr None)"

subsection \<open>APRAGeographicRule\<close>

definition default_high_risk_countries :: "string list" where
  "default_high_risk_countries = [''AFG'', ''IRN'', ''IRQ'', ''PRK'', ''SYR'', ''YEM'']"

text \<open>
  \<open>__init__\<close>: \<open>high_risk_countries or [...]\<close>, so \<open>None\<close> and the empty list both
  give the default list.
\<close>

definition geo_init :: "string list option \<Rightarrow> string list" where
  "geo_init high_risk_countries =
     (case high_risk_countries of
        None \<Rightarrow> default_high_risk_countries
      | Some [] \<Rightarrow> default_high_risk_countries
      | Some cs \<Rightarrow> cs)"

definition country_json :: "string option \<Rightarrow> json" where
  "country_json c = (case c of None \<Rightarrow> JNull | Some s \<Rightarrow> JStr s)"

definition geo_violation :: "Transaction \<Rightarrow> ComplianceViolation" where
  "geo_violation transaction =
     \<lparr> v_violation_type = type_value SUSPICIOUS_PATTERN,
       v_severity = severity_value CRITICAL,
       v_title = ''High-Risk Geographic Transaction - APRA '' @ ''CPS 234'',
       v_regulatory_framework = ''APRA'',
       v_standard_reference = ''CPS 234'',
       v_requirement_id = ''CPS234-GEO-001'',
       v_transaction_id = None,
       v_risk_score = 8.0,
       v_confidence_score = 1.0,
       v_status = None,
       v_assigned_to = None,
       v_resolution_notes = None,
       v_detected_at = None,
       v_resolved_at = None,
       v_violation_data =
         [(''country_code'', country_json (t_location_country transaction)),
          (''risk_category'', JStr ''HIGH_RISK_COUNTRY''),
          (''transaction_amount'', JNum (t_amount transaction)),
          (''requires_enhanced_due_diligence'', JBool True)],
       v_remediation_actions =
         [''Enhanced due diligence required'',
          ''Verify customer identity'',
          ''Check sanctions lists'',
          ''Report to AUSTRAC immediately''] \<rparr>"

text \<open>\<open>None in [...]\<close> is false for a list of strings.\<close>

definition geo_evaluate ::
  "string list \<Rightarrow> Transaction \<Rightarrow> eval_context \<Rightarrow> py_error + ComplianceViolation option" where
  "geo_evaluate high_risk_countries transaction ctx =
     (if (case t_location_country transaction of
            None \<Rightarrow> False
          | Some c \<Rightarrow> c \<in> set high_risk_countries)
      then Inr (Some (geo_violation transaction))
      else Inr None)"

subsection \<open>The rule interface\<close>

text \<open>
  \<open>ComplianceRuleInterface\<close> is an abstract class with the three implementations
  above; the registry \<open>ComplianceService.rules\<close> is a list of such objects, open to
  further implementations. \<open>CustomRule\<close> stands for any other implementation: its
  identifier, its severity and its \<open>evaluate\<close>, which may return a violation, return
  nothing or raise.
\<close>

datatype ComplianceRuleInterface =
    APRATransactionLimitRule real
  | APRAVelocityRule int real
  | APRAGeographicRule "string list"
  | CustomRule string ViolationSeverity
      "datetime \<Rightarrow> Transaction \<Rightarrow> eval_context \<Rightarrow> py_error + ComplianceViolation option"

fun evaluate ::
  "ComplianceRuleInterface \<Rightarrow> datetime \<Rightarrow> Transaction \<Rightarrow> eval_context
     \<Rightarrow> py_error + ComplianceViolation option" where
  "evaluate (APRATransactionLimitRule limit_amount) now transaction ctx =
     limit_evaluate limit_amount transaction ctx"
| "evaluate (APRAVelocityRule max_transactions_per_hour max_amount_per_hour) now transaction ctx =
     velocity_evaluate max_transactions_per_hour max_amount_per_hour now transaction ctx"
| "evaluate (APRAGeographicRule high_risk_countries) now transaction ctx =
     geo_evaluate high_risk_countries transaction ctx"
| "evaluate (CustomRule rid sev f) now transaction ctx = f now transaction ctx"

fun get_rule_id :: "ComplianceRuleInterface \<Rightarrow> string" where
  "get_rule_id (APRATransactionLimitRule _) = ''APRA-TXN-LIMIT-001''"
| "get_rule_id (APRAVelocityRule _ _) = ''APRA-VELOCITY-001''"
| "get_rule_id (APRAGeographicRule _) = ''APRA-GEO-001''"
| "get_rule_id (CustomRule rid _ _) = rid"

fun get_severity :: "ComplianceRuleInterface \<Rightarrow> ViolationSeverity" where
  "get_severity (APRATransactionLimitRule _) = HIGH"
| "get_severity (APRAVelocityRule _ _) = HIGH"
| "get_severity (APRAGeographicRule _) = CRITICAL"
| "get_severity (CustomRule _ sev _) = sev"

text \<open>\<open>ComplianceService._initialize_rules\<close>.\<close>

definition initialize_rules :: "ComplianceRuleInterface list" where
  "initialize_rules =
     [APRATransactionLimitRule 10000.0,
      APRAVelocityRule 10 50000.0,
      APRAGeographicRule (geo_init None)]"

section \<open>The database session\<close>

text \<open>
  The services talk to a SQLAlchemy session: \<open>add\<close> registers a new object,
  \<open>commit\<close> writes the registered objects and the changed attributes of loaded ones,
  and may raise. The model keeps the committed tables, the objects registered since the
  last commit, the loaded transactions whose attributes were changed, and the outcomes of
  the commits still to come (\<open>True\<close>: the commit succeeds; an exhausted list means
  success). A commit that raises writes nothing and rolls the session back: the
  registered objects and the pending changes are discarded, and every loaded object is
  expired, so that reading one of its attributes raises as long as the services do not
  roll the session back themselves (they never do). Queries are taken to succeed.
\<close>

text \<open>\<open>app/models/transaction.py\<close>, class \<open>TransactionPattern\<close>, fields prefixed
  \<open>p_\<close>. \<open>transaction_ids\<close> holds the listed identifiers (the source stores their
  printed form); the description is left out.\<close>

record TransactionPattern =
  p_account_id :: string
  p_pattern_type :: string
  p_confidence_score :: real
  p_frequency_count :: int
  p_time_window_hours :: int
  p_transaction_ids :: "string list"

record db_session =
  db_transactions :: "Transaction list"
  db_violations :: "ComplianceViolation list"
  db_patterns :: "TransactionPattern list"
  new_transactions :: "Transaction list"
  new_violations :: "ComplianceViolation list"
  new_patterns :: "TransactionPattern list"
  dirty_transactions :: "Transaction list"
  commit_outcomes :: "bool list"

definition add_transaction :: "Transaction \<Rightarrow> db_session \<Rightarrow> db_session" where
  "add_transaction t db = db\<lparr>new_transactions := new_transactions db @ [t]\<rparr>"

definition add_violation :: "ComplianceViolation \<Rightarrow> db_session \<Rightarrow> db_session" where
  "add_violation v db = db\<lparr>new_violations := new_violations db @ [v]\<rparr>"

definition add_pattern :: "TransactionPattern \<Rightarrow> db_session \<Rightarrow> db_session" where
  "add_pattern p db = db\<lparr>new_patterns := new_patterns db @ [p]\<rparr>"

text \<open>Assigning to an attribute of a loaded transaction marks it as changed.\<close>

definition mark_dirty :: "Transaction \<Rightarrow> db_session \<Rightarrow> db_session" where
  "mark_dirty t db = db\<lparr>dirty_transactions := dirty_transactions db @ [t]\<rparr>"

text \<open>The insert assigns the primary key and fills in the column defaults.\<close>

definition insert_transaction :: "Transaction list \<Rightarrow> Transaction \<Rightarrow> Transaction list" where
  "insert_transaction rows t = rows @ [t\<lparr>t_id := Some (int (length rows) + 1)\<rparr>]"

definition violation_defaults :: "datetime \<Rightarrow> ComplianceViolation \<Rightarrow> ComplianceViolation" where
  "violation_defaults now v =
     v\<lparr>v_status := (case v_status v of None \<Rightarrow> Some ''OPEN'' | Some s \<Rightarrow> Some s),
       v_detected_at := (case v_detected_at v of None \<Rightarrow> Some now | Some d \<Rightarrow> Some d)\<rparr>"

definition update_transaction :: "Transaction list \<Rightarrow> Transaction \<Rightarrow> Transaction list" where
  "update_transaction rows t = map (\<lambda>r. if t_id r = t_id t then t else r) rows"

definition flush :: "datetime \<Rightarrow> db_session \<Rightarrow> db_session" where
  "flush now db =
     db\<lparr>db_transactions :=
          fold (\<lambda>t rows. insert_transaction rows t) (new_transactions db)
            (fold (\<lambda>t rows. update_transaction rows t) (dirty_transactions db)
               (db_transactions db)),
        db_violations := db_violations db @ map (violation_defaults now) (new_violations db),
        db_patterns := db_patterns db @ new_patterns db,
        new_transactions := [],
        new_violations := [],
        new_patterns := [],
        dirty_transactions := []\<rparr>"

text \<open>What a failed commit leaves of the session: the tables as they were, nothing
  pending.\<close>

definition rollback :: "db_session \<Rightarrow> db_session" where
  "rollback db =
     db\<lparr>new_transactions := [],
        new_violations := [],
        new_patterns := [],
        dirty_transactions := []\<rparr>"

text \<open>\<open>commit\<close>: the flag says whether it returned (\<open>True\<close>) or raised.\<close>

definition commit :: "datetime \<Rightarrow> db_session \<Rightarrow> bool \<times> db_session" where
  "commit now db =
     (case commit_outcomes db of
        [] \<Rightarrow> (True, flush now db)
      | ok # rest \<Rightarrow>
          (if ok then (True, flush now (db\<lparr>commit_outcomes := rest\<rparr>))
           else (False, rollback (db\<lparr>commit_outcomes := rest\<rparr>))))"

text \<open>\<open>refresh\<close> reloads an object from its row, found by its unique identifier.\<close>

definition refresh :: "db_session \<Rightarrow> Transaction \<Rightarrow> Transaction option" where
  "refresh db t =
     find (\<lambda>r. t_transaction_id r = t_transaction_id t) (rev (db_transactions db))"

section \<open>ComplianceService\<close>

text \<open>\<open>_build_evaluation_context\<close>: the account's transactions of the last 24 hours.\<close>

definition build_evaluation_context ::
  "datetime \<Rightarrow> db_session \<Rightarrow> Transaction \<Rightarrow> eval_context" where
  "build_evaluation_context now db transaction =
     \<lparr> recent_transactions =
         Some (filter (\<lambda>t. t_account_id t = t_account_id transaction
                           \<and> t_transaction_timestamp t \<ge> now - timedelta_hours 24)
                 (db_transactions db)),
       ctx_account_id = t_account_id transaction,
       evaluation_timestamp = now \<rparr>"

text \<open>
  The loop over \<open>self.rules\<close> in \<open>evaluate_transaction\<close>: \<open>except Exception\<close> logs
  the error and goes on with the next rule; a violation gets the transaction's primary
  key and is appended.
\<close>

fun run_rules ::
  "ComplianceRuleInterface list \<Rightarrow> datetime \<Rightarrow> Transaction \<Rightarrow> eval_context
     \<Rightarrow> ComplianceViolation list" where
  "run_rules [] now transaction ctx = []"
| "run_rules (rule # rules) now transaction ctx =
     (case evaluate rule now transaction ctx of
        Inl e \<Rightarrow> run_rules rules now transaction ctx
      | Inr None \<Rightarrow> run_rules rules now transaction ctx
      | Inr (Some violation) \<Rightarrow>
          violation\<lparr>v_transaction_id := t_id transaction\<rparr>
            # run_rules rules now transaction ctx)"

text \<open>
  \<open>evaluate_transaction\<close>. The result is what the call returns or raises, the
  transaction object as the call leaves it, and the session. There are two commits: the
  first writes the violations, the second the changed transaction. A commit that raises
  expires the transaction object: the caller cannot read it any more, which is \<open>None\<close>
  here. The clock readings of one call (in the context builder and in the rules) are
  taken to be the same instant \<open>now\<close>.
\<close>

definition evaluate_transaction ::
  "ComplianceRuleInterface list \<Rightarrow> datetime \<Rightarrow> db_session \<Rightarrow> Transaction
     \<Rightarrow> (py_error + ComplianceViolation list) \<times> Transaction option \<times> db_session" where
  "evaluate_transaction rules now db transaction =
     (let ctx = build_evaluation_context now db transaction;
          violations = run_rules rules now transaction ctx;
          db1 = fold add_violation violations db
      in if violations \<noteq> [] then
           (case commit now db1 of
              (False, db2) \<Rightarrow> (Inl SQLAlchemyError, None, db2)
            | (True, db2) \<Rightarrow>
                (case py_max (map v_risk_score violations) of
                   Inl e \<Rightarrow> (Inl e, Some transaction, db2)
                 | Inr m \<Rightarrow>
                     (let transaction' =
                            transaction\<lparr>t_is_flagged := True,
                                        t_compliance_status := ''UNDER_REVIEW'',
                                        t_risk_score := m\<rparr>
                      in case commit now (mark_dirty transaction' db2) of
                           (False, db3) \<Rightarrow> (Inl SQLAlchemyError, None, db3)
                         | (True, db3) \<Rightarrow> (Inr violations, Some transaction', db3))))
         else (Inr violations, Some transaction, db1))"

section \<open>The overdue check and the dashboard\<close>

text \<open>\<open>ComplianceViolation.is_critical\<close> and \<open>is_overdue\<close>. Subtracting \<open>None\<close>
  from a \<open>datetime\<close> raises \<open>TypeError\<close>.\<close>

definition is_critical :: "ComplianceViolation \<Rightarrow> bool" where
  "is_critical v = (v_severity v = ''CRITICAL'')"

definition is_overdue :: "datetime \<Rightarrow> ComplianceViolation \<Rightarrow> py_error + bool" where
  "is_overdue now v =
     (if v_status v = Some ''RESOLVED'' \<or> v_status v = Some ''CLOSED'' then Inr False
      else if is_critical v then
        (case v_detected_at v of
           None \<Rightarrow> Inl TypeError
         | Some d \<Rightarrow> Inr (hours_between now d > 24))
      else if v_severity v = ''HIGH'' then
        (case v_detected_at v of
           None \<Rightarrow> Inl TypeError
         | Some d \<Rightarrow> Inr (hours_between now d > 72))
      else Inr False)"

text \<open>
  \<open>round(x, 2)\<close>: to the nearest multiple of 0.01, a tie going to the even neighbour.
  (On binary floats a decimal tie is rare, since most two-digit decimals have no exact
  representation; over the reals the rule is the one stated.)
\<close>

definition round_half_even :: "real \<Rightarrow> int" where
  "round_half_even y =
     (let f = \<lfloor>y\<rfloor>; d = y - real_of_int f
      in if d < 1 / 2 then f
         else if d > 1 / 2 then f + 1
         else if even f then f else f + 1)"

definition py_round2 :: "real \<Rightarrow> real" where
  "py_round2 x = real_of_int (round_half_even (x * 100)) / 100"

text \<open>\<open>ComplianceDashboard\<close> of \<open>app/api/v1/endpoints/compliance.py\<close>.\<close>

record ComplianceDashboard =
  total_violations :: int
  critical_violations :: int
  high_violations :: int
  medium_violations :: int
  low_violations :: int
  open_violations :: int
  resolved_violations :: int
  overdue_violations :: int
  average_resolution_time_hours :: real
  compliance_score :: real

text \<open>\<open>sum(1 for v in vs if cond(v))\<close>.\<close>

definition count_where :: "('a \<Rightarrow> bool) \<Rightarrow> 'a list \<Rightarrow> int" where
  "count_where cond vs = int (length (filter cond vs))"

text \<open>\<open>sum(1 for v in all_violations if v.is_overdue)\<close>: the property may raise.\<close>

fun count_overdue :: "datetime \<Rightarrow> ComplianceViolation list \<Rightarrow> py_error + int" where
  "count_overdue now [] = Inr 0"
| "count_overdue now (v # vs) =
     (case is_overdue now v of
        Inl e \<Rightarrow> Inl e
      | Inr b \<Rightarrow>
          (case count_overdue now vs of
             Inl e \<Rightarrow> Inl e
           | Inr n \<Rightarrow> Inr ((if b then 1 else 0) + n)))"

text \<open>The violations with both timestamps, as pairs (detected, resolved).\<close>

definition resolution_spans :: "ComplianceViolation list \<Rightarrow> (datetime \<times> datetime) list" where
  "resolution_spans vs =
     List.map_filter
       (\<lambda>v. case (v_resolved_at v, v_detected_at v) of
               (Some r, Some d) \<Rightarrow> Some (d, r)
             | _ \<Rightarrow> None) vs"

definition average_resolution_time :: "ComplianceViolation list \<Rightarrow> real" where
  "average_resolution_time vs =
     (let spans = resolution_spans vs
      in if spans \<noteq> [] then
           sum_list (map (\<lambda>(d, r). hours_between r d) spans) / real (length spans)
         else 0.0)"

text \<open>The score before the final rounding.\<close>

definition raw_compliance_score :: "ComplianceViolation list \<Rightarrow> int \<Rightarrow> real" where
  "raw_compliance_score vs overdue_count =
     (let total_risk_score = sum_list (map v_risk_score vs);
          max_possible_score = real (length vs) * 10.0;
          score = (if max_possible_score > 0
                   then max 0 (100 - (total_risk_score / max_possible_score * 100))
                   else 100.0)
      in if overdue_count > 0 then max 0 (score - real_of_int (overdue_count * 5))
         else score)"

text \<open>\<open>get_compliance_dashboard\<close>, over the rows of the violation table.\<close>

definition get_compliance_dashboard ::
  "datetime \<Rightarrow> ComplianceViolation list \<Rightarrow> py_error + ComplianceDashboard" where
  "get_compliance_dashboard now all_violations =
     (if all_violations = [] then
        Inr \<lparr> total_violations = 0, critical_violations = 0, high_violations = 0,
              medium_violations = 0, low_violations = 0, open_violations = 0,
              resolved_violations = 0, overdue_violations = 0,
              average_resolution_time_hours = 0.0, compliance_score = 100.0 \<rparr>
      else
        (case count_overdue now all_violations of
           Inl e \<Rightarrow> Inl e
         | Inr overdue_count \<Rightarrow>
             Inr \<lparr> total_violations = int (length all_violations),
                   critical_violations =
                     count_where (\<lambda>v. v_severity v = ''CRITICAL'') all_violations,
                   high_violations =
                     count_where (\<lambda>v. v_severity v = ''HIGH'') all_violations,
                   medium_violations =
                     count_where (\<lambda>v. v_severity v = ''MEDIUM'') all_violations,
                   low_violations =
                     count_where (\<lambda>v. v_severity v = ''LOW'') all_violations,
                   open_violations =
                     count_where (\<lambda>v. v_status v = Some ''OPEN''
                                        \<or> v_status v = Some ''INVESTIGATING'') all_violations,
                   resolved_violations =
                     count_where (\<lambda>v. v_status v = Some ''RESOLVED''
                                        \<or> v_status v = Some ''CLOSED'') all_violations,
                   overdue_violations = overdue_count,
                   average_resolution_time_hours =
                     py_round2 (average_resolution_time all_violations),
                   compliance_score =
                     py_round2 (raw_compliance_score all_violations overdue_count) \<rparr>))"

section \<open>TransactionService\<close>

text \<open>
  The dictionary passed to \<open>create_transaction\<close>. Each key holds a value of its
  column's type when it is present. For the keys the validation inspects, an entry tells
  an absent key from a key holding \<open>None\<close>; the amount may be any scalar. For the other
  keys \<open>None\<close> means that the key is absent.
\<close>

datatype 'a entry = Absent | Null | Present 'a

datatype py_scalar = PyInt int | PyFloat real | PyStr string

record transaction_data =
  d_account_id :: "string entry"
  d_amount :: "py_scalar entry"
  d_transaction_type :: "string entry"
  d_currency :: "string entry"
  d_transaction_channel :: "string option"
  d_location_country :: "string option"
  d_transaction_timestamp :: "datetime option"

text \<open>\<open>field not in data or data[field] is None\<close>.\<close>

fun missing :: "'a entry \<Rightarrow> bool" where
  "missing Absent = True"
| "missing Null = True"
| "missing (Present _) = False"

definition valid_types :: "string list" where
  "valid_types = [''DEBIT'', ''CREDIT'', ''TRANSFER'']"

text \<open>
  \<open>_validate_transaction_data\<close>. \<open>len(None)\<close> raises \<open>TypeError\<close>. The length
  of a string counts its characters, which for the ASCII codes in question are bytes.
\<close>

definition validate_transaction_data :: "transaction_data \<Rightarrow> py_error + unit" where
  "validate_transaction_data data =
     (if missing (d_account_id data) then Inl (DataQualityViolation ''account_id'')
      else if missing (d_amount data) then Inl (DataQualityViolation ''amount'')
      else if missing (d_transaction_type data)
        then Inl (DataQualityViolation ''transaction_type'')
      else if (case d_amount data of
                 Present (PyInt n) \<Rightarrow> n \<le> 0
               | Present (PyFloat x) \<Rightarrow> x \<le> 0
               | _ \<Rightarrow> True)
        then Inl (DataQualityViolation ''amount'')
      else if (case d_transaction_type data of
                 Present s \<Rightarrow> s \<notin> set valid_types
               | _ \<Rightarrow> True)
        then Inl (DataQualityViolation ''transaction_type'')
      else (case d_currency data of
              Absent \<Rightarrow> Inr ()
            | Null \<Rightarrow> Inl TypeError
            | Present c \<Rightarrow>
                if length c \<noteq> 3 then Inl (DataQualityViolation ''currency'')
                else Inr ()))"

text \<open>\<open>data.get(key, default)\<close> for the optional keys.\<close>

definition get_default :: "'a option \<Rightarrow> 'a \<Rightarrow> 'a" where
  "get_default e d = (case e of None \<Rightarrow> d | Some x \<Rightarrow> x)"

text \<open>
  The \<open>Transaction(...)\<close> call of \<open>create_transaction\<close>, for validated data. The
  identifier \<open>uuid\<close> and the compliance fields are column defaults; they are put in
  here rather than at the insert, nothing reads them in between.
\<close>

definition new_transaction :: "datetime \<Rightarrow> string \<Rightarrow> transaction_data \<Rightarrow> Transaction" where
  "new_transaction now uuid data =
     \<lparr> t_id = None,
       t_transaction_id = uuid,
       t_account_id = (case d_account_id data of Present a \<Rightarrow> a | _ \<Rightarrow> []),
       t_amount = (case d_amount data of
                     Present (PyInt n) \<Rightarrow> real_of_int n
                   | Present (PyFloat x) \<Rightarrow> x
                   | _ \<Rightarrow> 0),
       t_currency = (case d_currency data of Present c \<Rightarrow> c | _ \<Rightarrow> ''AUD''),
       t_transaction_type = (case d_transaction_type data of Present s \<Rightarrow> s | _ \<Rightarrow> []),
       t_transaction_channel = Some (get_default (d_transaction_channel data) ''ONLINE''),
       t_location_country = Some (get_default (d_location_country data) ''AUS''),
       t_transaction_timestamp = get_default (d_transaction_timestamp data) now,
       t_is_flagged = False,
       t_risk_score = 0.0,
       t_compliance_status = ''PENDING'' \<rparr>"

text \<open>
  \<open>create_transaction\<close>: validate, insert, reload, evaluate. The service evaluates
  with the rules of \<open>_initialize_rules\<close>; they are a parameter here, as
  \<open>compliance_service.rules\<close> is an attribute. The evaluation expires the object only
  where it raises, so the last case below does not arise.
\<close>

definition create_transaction ::
  "ComplianceRuleInterface list \<Rightarrow> datetime \<Rightarrow> string \<Rightarrow> transaction_data \<Rightarrow> db_session
     \<Rightarrow> (py_error + Transaction) \<times> db_session" where
  "create_transaction rules now uuid data db =
     (case validate_transaction_data data of
        Inl e \<Rightarrow> (Inl e, db)
      | Inr _ \<Rightarrow>
          (let transaction = new_transaction now uuid data
           in case commit now (add_transaction transaction db) of
                (False, db1) \<Rightarrow> (Inl SQLAlchemyError, db1)
              | (True, db1) \<Rightarrow>
                  (case refresh db1 transaction of
                     None \<Rightarrow> (Inl SQLAlchemyError, db1)
                   | Some stored \<Rightarrow>
                       (case evaluate_transaction rules now db1 stored of
                          (Inl e, _, db2) \<Rightarrow> (Inl e, db2)
                        | (Inr violations, Some transaction', db2) \<Rightarrow>
                            (Inr transaction', db2)
                        | (Inr violations, None, db2) \<Rightarrow>
                            (Inl SQLAlchemyError, db2)))))"

text \<open>
  \<open>get_transactions_by_account\<close>: the account's rows, from \<open>start_date\<close> on and up
  to \<open>end_date\<close> when these are given, latest first, \<open>offset\<close> rows skipped and at
  most \<open>limit\<close> returned. (The order of rows with equal timestamps is the database's
  choice; here it is the reverse of a stable sort.)
\<close>

definition get_transactions_by_account ::
  "db_session \<Rightarrow> string \<Rightarrow> nat \<Rightarrow> nat \<Rightarrow> datetime option \<Rightarrow> datetime option
     \<Rightarrow> Transaction list" where
  "get_transactions_by_account db account_id limit offset start_date end_date =
     (let q0 = filter (\<lambda>t. t_account_id t = account_id) (db_transactions db);
          q1 = (case start_date of
                  None \<Rightarrow> q0
                | Some s \<Rightarrow> filter (\<lambda>t. t_transaction_timestamp t \<ge> s) q0);
          q2 = (case end_date of
                  None \<Rightarrow> q1
                | Some e \<Rightarrow> filter (\<lambda>t. t_transaction_timestamp t \<le> e) q1)
      in take limit (drop offset (rev (sort_key t_transaction_timestamp q2))))"

text \<open>
  \<open>strftime("%Y-%m-%d-%H")\<close> names the calendar hour of a timestamp; two timestamps
  have the same key exactly when they lie in the same hour, so the key is modelled by the
  number of that hour. \<open>.hour\<close> is the hour of the day.
\<close>

definition hour_key :: "datetime \<Rightarrow> int" where
  "hour_key ts = ts div 3600000000"

definition hour_of_day :: "datetime \<Rightarrow> int" where
  "hour_of_day ts = (ts div 3600000000) mod 24"

text \<open>\<open>hourly_counts[k] = hourly_counts.get(k, 0) + 1\<close> on a dictionary kept as an
  association list.\<close>

fun dict_incr :: "int \<Rightarrow> (int \<times> int) list \<Rightarrow> (int \<times> int) list" where
  "dict_incr k [] = [(k, 1)]"
| "dict_incr k ((k', c) # d) =
     (if k = k' then (k', c + 1) # d else (k', c) # dict_incr k d)"

definition hourly_counts :: "Transaction list \<Rightarrow> (int \<times> int) list" where
  "hourly_counts transactions =
     fold (\<lambda>t d. dict_incr (hour_key (t_transaction_timestamp t)) d) transactions []"

definition max_hourly_count :: "Transaction list \<Rightarrow> int" where
  "max_hourly_count transactions =
     (case map snd (hourly_counts transactions) of
        [] \<Rightarrow> 0
      | c # cs \<Rightarrow> fold max cs c)"

text \<open>
  The three detectors. Each reads \<open>transactions[0].account_id\<close> only where its
  threshold is met, which needs a non-empty list; the empty case below is never reached.
\<close>

definition detect_velocity_pattern :: "Transaction list \<Rightarrow> TransactionPattern option" where
  "detect_velocity_pattern transactions =
     (let m = max_hourly_count transactions
      in if m > 5 then
           (case transactions of
              [] \<Rightarrow> None
            | t0 # _ \<Rightarrow>
                Some \<lparr> p_account_id = t_account_id t0,
                       p_pattern_type = ''VELOCITY'',
                       p_confidence_score = min (real_of_int m / 10.0) 1.0,
                       p_frequency_count = m,
                       p_time_window_hours = 1,
                       p_transaction_ids = map t_transaction_id transactions \<rparr>)
         else None)"

definition detect_amount_pattern :: "Transaction list \<Rightarrow> TransactionPattern option" where
  "detect_amount_pattern transactions =
     (let threshold = 10000.0;
          near_threshold_transactions =
            filter (\<lambda>t. 9000.0 \<le> t_amount t \<and> t_amount t < threshold) transactions
      in if length near_threshold_transactions \<ge> 3 then
           (case transactions of
              [] \<Rightarrow> None
            | t0 # _ \<Rightarrow>
                Some \<lparr> p_account_id = t_account_id t0,
                       p_pattern_type = ''AMOUNT'',
                       p_confidence_score =
                         min (real (length near_threshold_transactions) / 5.0) 1.0,
                       p_frequency_count = int (length near_threshold_transactions),
                       p_time_window_hours = 24,
                       p_transaction_ids =
                         map t_transaction_id near_threshold_transactions \<rparr>)
         else None)"

definition detect_time_pattern :: "Transaction list \<Rightarrow> TransactionPattern option" where
  "detect_time_pattern transactions =
     (let unusual_time_transactions =
            filter (\<lambda>t. hour_of_day (t_transaction_timestamp t) \<ge> 22
                         \<or> hour_of_day (t_transaction_timestamp t) \<le> 6) transactions
      in if length unusual_time_transactions \<ge> 3 then
           (case transactions of
              [] \<Rightarrow> None
            | t0 # _ \<Rightarrow>
                Some \<lparr> p_account_id = t_account_id t0,
                       p_pattern_type = ''TEMPORAL'',
                       p_confidence_score =
                         min (real (length unusual_time_transactions) / 10.0) 1.0,
                       p_frequency_count = int (length unusual_time_transactions),
                       p_time_window_hours = 24,
                       p_transaction_ids =
                         map t_transaction_id unusual_time_transactions \<rparr>)
         else None)"

definition opt_list :: "'a option \<Rightarrow> 'a list" where
  "opt_list x = (case x of None \<Rightarrow> [] | Some y \<Rightarrow> [y])"

text \<open>
  \<open>detect_suspicious_patterns\<close>: what the call returns or raises, and the session.
\<close>

definition detect_suspicious_patterns ::
  "datetime \<Rightarrow> db_session \<Rightarrow> string \<Rightarrow> (py_error + TransactionPattern list) \<times> db_session" where
  "detect_suspicious_patterns now db account_id =
     (let recent =
            get_transactions_by_account db account_id 100 0
              (Some (now - timedelta_days 30)) None
      in if length recent < 5 then (Inr [], db)
         else
           (let patterns =
                  opt_list (detect_velocity_pattern recent)
                  @ opt_list (detect_amount_pattern recent)
                  @ opt_list (detect_time_pattern recent);
                db1 = fold add_pattern patterns db
            in if patterns \<noteq> [] then
                 (case commit now db1 of
                    (False, db2) \<Rightarrow> (Inl SQLAlchemyError, db2)
                  | (True, db2) \<Rightarrow> (Inr patterns, db2))
               else (Inr patterns, db1)))"

section \<open>Sample data\<close>

text \<open>
  Transactions, violations and sessions as the unit tests build them, for the concrete
  instances below.
\<close>

definition sample_transaction :: "string \<Rightarrow> real \<Rightarrow> datetime \<Rightarrow> Transaction" where
  "sample_transaction account amount ts =
     \<lparr> t_id = Some 1,
       t_transaction_id = ''TXN001'',
       t_account_id = account,
       t_amount = amount,
       t_currency = ''AUD'',
       t_transaction_type = ''DEBIT'',
       t_transaction_channel = Some ''ONLINE'',
       t_location_country = Some ''AUS'',
       t_transaction_timestamp = ts,
       t_is_flagged = False,
       t_risk_score = 0.0,
       t_compliance_status = ''PENDING'' \<rparr>"

definition sample_context :: "Transaction list \<Rightarrow> eval_context" where
  "sample_context ts =
     \<lparr> recent_transactions = Some ts, ctx_account_id = ''TEST001'',
       evaluation_timestamp = 0 \<rparr>"

definition sample_violation ::
  "string \<Rightarrow> string \<Rightarrow> real \<Rightarrow> datetime option \<Rightarrow> datetime option \<Rightarrow> ComplianceViolation" where
  "sample_violation severity status risk detected resolved =
     \<lparr> v_violation_type = ''TRANSACTION_LIMIT'',
       v_severity = severity,
       v_title = ''Test Violation'',
       v_regulatory_framework = ''APRA'',
       v_standard_reference = ''CPS 234'',
       v_requirement_id = ''CPS234-TXN-001'',
       v_transaction_id = None,
       v_risk_score = risk,
       v_confidence_score = 1.0,
       v_status = Some status,
       v_assigned_to = None,
       v_resolution_notes = None,
       v_detected_at = detected,
       v_resolved_at = resolved,
       v_violation_data = [],
       v_remediation_actions = [] \<rparr>"

definition sample_session :: "Transaction list \<Rightarrow> bool list \<Rightarrow> db_session" where
  "sample_session rows outcomes =
     \<lparr> db_transactions = rows, db_violations = [], db_patterns = [],
       new_transactions = [], new_violations = [], new_patterns = [],
       dirty_transactions = [], commit_outcomes = outcomes \<rparr>"

text \<open>A rule whose \<open>evaluate\<close> raises, as the unit test patches one in, and a
  transaction of 15000 from a high-risk country.\<close>

definition failing_rule :: ComplianceRuleInterface where
  "failing_rule = CustomRule ''BROKEN-001'' LOW (\<lambda>now t ctx. Inl (RuleFailure ''Rule error''))"

definition high_risk_transaction :: Transaction where
  "high_risk_transaction =
     (sample_transaction ''TEST001'' 15000 0)\<lparr>t_location_country := Some ''IRN''\<rparr>"

text \<open>Transactions of 9500 made at 23:00 plus the given number of microseconds: near
  the reporting threshold and outside business hours.\<close>

definition night_transaction :: "int \<Rightarrow> Transaction" where
  "night_transaction i =
     (sample_transaction ''ACC123'' 9500 (timedelta_hours 23 + i))\<lparr>t_id := Some (i + 1)\<rparr>"

text \<open>A dictionary with the three required keys only.\<close>

definition minimal_transaction_data :: transaction_data where
  "minimal_transaction_data =
     \<lparr> d_account_id = Present ''ACC123'',
       d_amount = Present (PyFloat 5000),
       d_transaction_type = Present ''DEBIT'',
       d_currency = Absent,
       d_transaction_channel = None,
       d_location_country = None,
       d_transaction_timestamp = None \<rparr>"

section \<open>The Transaction Limit Rule\<close>

text \<open>
  Claim C2, as stated, at a zero limit: an amount above the limit does not yield a
  violation, since the quotient \<open>amount / limit_amount\<close> raises. (Inside
  \<open>evaluate_transaction\<close> the error is swallowed, so a rule configured with limit 0
  never reports.)
\<close>

theorem limit_rule_zero_limit:
  "t_amount (sample_transaction ''TEST001'' 5 0) > 0
   \<and> limit_evaluate 0 (sample_transaction ''TEST001'' 5 0) (sample_context [])
       = Inl ZeroDivisionError"
  by (simp add: limit_evaluate_def sample_transaction_def py_truediv_def)

text \<open>
  Claim C2, amended: an amount up to the limit (equality included) gives no violation;
  an amount above a non-zero limit gives one violation of severity HIGH, with risk score
  \<open>min (amount / limit) 10\<close>, \<open>excess_amount = amount - limit\<close> and
  \<open>violation_percentage = amount / limit * 100\<close>; above a zero limit the rule raises
  \<open>ZeroDivisionError\<close>.
\<close>

theorem limit_rule_outcome:
  "(t_amount transaction \<le> limit_amount \<longrightarrow>
      limit_evaluate limit_amount transaction ctx = Inr None)
   \<and> (t_amount transaction > limit_amount \<and> limit_amount \<noteq> 0 \<longrightarrow>
      (\<exists>v. limit_evaluate limit_amount transaction ctx = Inr (Some v)
         \<and> v_severity v = ''HIGH''
         \<and> v_risk_score v = min (t_amount transaction / limit_amount) 10.0
         \<and> map_of (v_violation_data v) ''excess_amount''
             = Some (JNum (t_amount transaction - limit_amount))
         \<and> map_of (v_violation_data v) ''violation_percentage''
             = Some (JNum (t_amount transaction / limit_amount * 100))))
   \<and> (t_amount transaction > limit_amount \<and> limit_amount = 0 \<longrightarrow>
      limit_evaluate limit_amount transaction ctx = Inl ZeroDivisionError)"
  by (simp add: limit_evaluate_def py_truediv_def limit_violation_def)

text \<open>At the limit of 10000: an amount of exactly 10000 passes, 15000 is reported with
  risk score 1.5, excess 5000 and 150 percent.\<close>

theorem limit_rule_outcome_witness:
  "limit_evaluate 10000 (sample_transaction ''TEST001'' 10000 0) (sample_context []) = Inr None
   \<and> (\<exists>v. limit_evaluate 10000 (sample_transaction ''TEST001'' 15000 0) (sample_context [])
            = Inr (Some v)
         \<and> v_severity v = ''HIGH''
         \<and> v_risk_score v = 1.5
         \<and> map_of (v_violation_data v) ''excess_amount'' = Some (JNum 5000)
         \<and> map_of (v_violation_data v) ''violation_percentage'' = Some (JNum 150))"
  using limit_rule_outcome [of "sample_transaction ''TEST001'' 10000 0" 10000 "sample_context []"]
        limit_rule_outcome [of "sample_transaction ''TEST001'' 15000 0" 10000 "sample_context []"]
  by (simp add: sample_transaction_def)

section \<open>The Velocity Rule\<close>

lemma velocity_cases:
  "velocity_evaluate m a now t ctx =
     (if velocity_count now t ctx > m \<or> velocity_total now t ctx > a
      then (if m = 0 \<or> a = 0 then Inl ZeroDivisionError
            else Inr (Some (velocity_violation m a t
              (if velocity_count now t ctx > m * 2 then CRITICAL else HIGH)
              (velocity_count now t ctx) (velocity_total now t ctx)
              (real_of_int (velocity_count now t ctx) / real_of_int m)
              (velocity_total now t ctx / a))))
      else Inr None)"
  by (simp add: velocity_evaluate_def py_truediv_def Let_def)

text \<open>
  Claim C3, as stated, fails in two ways. At \<open>max_transactions_per_hour = 0\<close> the
  count (1) exceeds the maximum and the rule raises instead of returning a violation.
  And the rule's window has no upper end: with a maximum of one transaction per hour, a
  context row of the same account dated 24 hours ahead is not a transaction of the last
  hour, so the claim's count is 1 and its total 1000 and no violation is due; the rule
  counts the row, finds 2 transactions and returns a violation.
\<close>

theorem velocity_rule_deviations:
  "velocity_count 0 (sample_transaction ''TEST001'' 1000 0) (sample_context []) > 0
   \<and> velocity_evaluate 0 50000 0 (sample_transaction ''TEST001'' 1000 0) (sample_context [])
       = Inl ZeroDivisionError
   \<and> filter (\<lambda>r. t_account_id r = ''TEST001''
                 \<and> timedelta_hours 10 - timedelta_hours 1 \<le> t_transaction_timestamp r
                 \<and> t_transaction_timestamp r \<le> timedelta_hours 10)
        [sample_transaction ''TEST001'' 1000 (timedelta_hours 34)] = []
   \<and> t_amount (sample_transaction ''TEST001'' 1000 (timedelta_hours 10)) \<le> 50000
   \<and> velocity_count (timedelta_hours 10)
        (sample_transaction ''TEST001'' 1000 (timedelta_hours 10))
        (sample_context [sample_transaction ''TEST001'' 1000 (timedelta_hours 34)]) = 2
   \<and> velocity_evaluate 1 50000 (timedelta_hours 10)
        (sample_transaction ''TEST001'' 1000 (timedelta_hours 10))
        (sample_context [sample_transaction ''TEST001'' 1000 (timedelta_hours 34)])
       = Inr (Some (velocity_violation 1 50000
                     (sample_transaction ''TEST001'' 1000 (timedelta_hours 10))
                     HIGH 2 2000 2 (1 / 25)))"
  by (simp add: velocity_cases velocity_count_def velocity_total_def
      recent_hour_transactions_def get_recent_transactions_def sample_context_def
      sample_transaction_def timedelta_hours_def)

text \<open>
  Claim C3, amended: \<open>count\<close> is the number of transactions of the context on the
  same account with a timestamp from one hour ago on (later timestamps included), plus
  one; \<open>total\<close> is their summed amount plus the current amount. The rule returns a
  violation only if \<open>count > max_transactions_per_hour\<close> or
  \<open>total > max_amount_per_hour\<close>, and returns nothing if neither holds. If one
  holds and both maxima are non-zero it returns a violation whose severity is CRITICAL
  exactly when \<open>count > 2 * max_transactions_per_hour\<close> and HIGH otherwise, whose
  risk score is the larger of the two quotients and whose confidence is 0.9; if one holds
  and a maximum is zero it raises \<open>ZeroDivisionError\<close>.
\<close>

theorem velocity_rule_outcome:
  "let matching = filter (\<lambda>t. t_transaction_timestamp t \<ge> now - timedelta_hours 1
                               \<and> t_account_id t = t_account_id transaction)
                    (get_recent_transactions ctx);
       count = int (length matching) + 1;
       total = sum_list (map t_amount matching) + t_amount transaction;
       triggered = (count > max_transactions_per_hour \<or> total > max_amount_per_hour);
       outcome = velocity_evaluate max_transactions_per_hour max_amount_per_hour
                   now transaction ctx
   in velocity_count now transaction ctx = count
    \<and> velocity_total now transaction ctx = total
    \<and> ((\<exists>v. outcome = Inr (Some v)) \<longrightarrow> triggered)
    \<and> (\<not> triggered \<longrightarrow> outcome = Inr None)
    \<and> (triggered \<and> max_transactions_per_hour \<noteq> 0 \<and> max_amount_per_hour \<noteq> 0 \<longrightarrow>
         (\<exists>v. outcome = Inr (Some v)
            \<and> (v_severity v = ''CRITICAL'' \<longleftrightarrow> count > 2 * max_transactions_per_hour)
            \<and> (\<not> count > 2 * max_transactions_per_hour \<longrightarrow> v_severity v = ''HIGH'')
            \<and> v_risk_score v = max (real_of_int count / real_of_int max_transactions_per_hour)
                                    (total / max_amount_per_hour)
            \<and> v_confidence_score v = 0.9))
    \<and> (triggered \<and> (max_transactions_per_hour = 0 \<or> max_amount_per_hour = 0) \<longrightarrow>
         outcome = Inl ZeroDivisionError)"
proof -
  have c: "velocity_count now transaction ctx
             = int (length (filter (\<lambda>t. t_transaction_timestamp t \<ge> now - timedelta_hours 1
                                     \<and> t_account_id t = t_account_id transaction)
                          (get_recent_transactions ctx))) + 1"
    by (simp add: velocity_count_def recent_hour_transactions_def)
  have s: "velocity_total now transaction ctx
             = sum_list (map t_amount
                 (filter (\<lambda>t. t_transaction_timestamp t \<ge> now - timedelta_hours 1
                              \<and> t_account_id t = t_account_id transaction)
                    (get_recent_transactions ctx))) + t_amount transaction"
    by (simp add: velocity_total_def recent_hour_transactions_def)
  show ?thesis
    unfolding Let_def c [symmetric] s [symmetric] velocity_cases
    by (simp add: velocity_violation_def mult.commute)
qed

text \<open>
  The unit tests' cases, with transactions of 1000 half an hour old: six of them against a
  maximum of 5 give a HIGH violation of risk score 7/5, eleven give a CRITICAL one, and
  one against a maximum of 10 gives none.
\<close>

theorem velocity_rule_outcome_witness:
  "(\<exists>v. velocity_evaluate 5 50000 (timedelta_hours 10)
          (sample_transaction ''TEST001'' 1000 (timedelta_hours 10))
          (sample_context (replicate 6
             (sample_transaction ''TEST001'' 1000 (timedelta_hours 10 - 1800000000))))
        = Inr (Some v)
       \<and> v_severity v = ''HIGH'' \<and> v_risk_score v = 7 / 5 \<and> v_confidence_score v = 0.9)
  \<and> (\<exists>v. velocity_evaluate 5 50000 (timedelta_hours 10)
          (sample_transaction ''TEST001'' 1000 (timedelta_hours 10))
          (sample_context (replicate 11
             (sample_transaction ''TEST001'' 1000 (timedelta_hours 10 - 1800000000))))
        = Inr (Some v)
       \<and> v_severity v = ''CRITICAL'' \<and> v_risk_score v = 12 / 5)
  \<and> velocity_evaluate 10 50000 (timedelta_hours 10)
          (sample_transaction ''TEST001'' 1000 (timedelta_hours 10))
          (sample_context (replicate 1
             (sample_transaction ''TEST001'' 1000 (timedelta_hours 10 - 1800000000))))
        = Inr None"
proof -
  let ?now = "timedelta_hours 10"
  let ?t = "sample_transaction ''TEST001'' 1000 ?now"
  let ?old = "sample_transaction ''TEST001'' 1000 (?now - 1800000000)"
  let ?ctx = "\<lambda>n. sample_context (replicate n ?old)"
  have m: "\<And>n. filter (\<lambda>t. t_transaction_timestamp t \<ge> ?now - timedelta_hours 1
                           \<and> t_account_id t = t_account_id ?t)
                  (get_recent_transactions (?ctx n))
            = replicate n ?old"
    by (simp add: get_recent_transactions_def sample_context_def sample_transaction_def
        timedelta_hours_def)
  have am: "\<And>n. sum_list (map t_amount (replicate n ?old)) = real n * 1000"
    by (simp add: sample_transaction_def sum_list_replicate map_replicate)
  have a: "t_amount ?t = 1000"
    by (simp add: sample_transaction_def)
  note h6 = velocity_rule_outcome [of ?now ?t "?ctx 6" 5 50000, unfolded Let_def m am a]
  note h11 = velocity_rule_outcome [of ?now ?t "?ctx 11" 5 50000, unfolded Let_def m am a]
  note h1 = velocity_rule_outcome [of ?now ?t "?ctx 1" 10 50000, unfolded Let_def m am a]
  from h6 have "\<exists>v. velocity_evaluate 5 50000 ?now ?t (?ctx 6) = Inr (Some v)
       \<and> v_severity v = ''HIGH'' \<and> v_risk_score v = 7 / 5 \<and> v_confidence_score v = 0.9"
    by auto
  moreover from h11 have "\<exists>v. velocity_evaluate 5 50000 ?now ?t (?ctx 11) = Inr (Some v)
       \<and> v_severity v = ''CRITICAL'' \<and> v_risk_score v = 12 / 5"
    by auto
  moreover from h1 have "velocity_evaluate 10 50000 ?now ?t (?ctx 1) = Inr None"
    by simp
  ultimately show ?thesis by blast
qed





section \<open>The overdue check\<close>

lemma hours_between_gt:
  "hours_between a b > real_of_int h \<longleftrightarrow> a - b > timedelta_hours h"
proof -
  have "hours_between a b > real_of_int h
          \<longleftrightarrow> real_of_int (a - b) > real_of_int (h * 3600000000)"
    by (simp add: hours_between_def field_simps)
  also have "\<dots> \<longleftrightarrow> a - b > h * 3600000000"
    by (simp only: of_int_less_iff)
  finally show ?thesis by (simp add: timedelta_hours_def)
qed

text \<open>
  Claim C7: \<open>is_overdue\<close> is a function of the violation and the current time. For a
  violation whose status is RESOLVED or CLOSED it is false; for a CRITICAL violation in
  another state, detected at \<open>d\<close>, it is true exactly when more than 24 hours have
  passed since \<open>d\<close>; for a HIGH one exactly when more than 72 hours have passed; for
  MEDIUM, LOW and INFO it is false.
\<close>

theorem is_overdue_cases:
  "(v_status v = Some ''RESOLVED'' \<or> v_status v = Some ''CLOSED''
      \<longrightarrow> is_overdue now v = Inr False)
   \<and> (v_status v \<noteq> Some ''RESOLVED'' \<and> v_status v \<noteq> Some ''CLOSED''
        \<and> v_severity v = ''CRITICAL'' \<and> v_detected_at v = Some d
      \<longrightarrow> is_overdue now v = Inr (now - d > timedelta_hours 24))
   \<and> (v_status v \<noteq> Some ''RESOLVED'' \<and> v_status v \<noteq> Some ''CLOSED''
        \<and> v_severity v = ''HIGH'' \<and> v_detected_at v = Some d
      \<longrightarrow> is_overdue now v = Inr (now - d > timedelta_hours 72))
   \<and> (v_severity v = ''MEDIUM'' \<or> v_severity v = ''LOW'' \<or> v_severity v = ''INFO''
      \<longrightarrow> is_overdue now v = Inr False)"
  using hours_between_gt [of 24 now d] hours_between_gt [of 72 now d]
  by (auto simp add: is_overdue_def is_critical_def)

text \<open>
  A resolved CRITICAL violation is not overdue; an open one is overdue after 25 hours and
  not after exactly 24; a HIGH one under investigation is overdue after 73 hours and not
  after exactly 72; a MEDIUM one never.
\<close>

theorem is_overdue_cases_witness:
  "is_overdue (timedelta_hours 100)
     (sample_violation ''CRITICAL'' ''RESOLVED'' 8 (Some 0) (Some (timedelta_hours 90))) = Inr False
   \<and> is_overdue (timedelta_hours 25)
     (sample_violation ''CRITICAL'' ''OPEN'' 8 (Some 0) None) = Inr True
   \<and> is_overdue (timedelta_hours 24)
     (sample_violation ''CRITICAL'' ''OPEN'' 8 (Some 0) None) = Inr False
   \<and> is_overdue (timedelta_hours 73)
     (sample_violation ''HIGH'' ''INVESTIGATING'' 2 (Some 0) None) = Inr True
   \<and> is_overdue (timedelta_hours 72)
     (sample_violation ''HIGH'' ''INVESTIGATING'' 2 (Some 0) None) = Inr False
   \<and> is_overdue (timedelta_hours 1000)
     (sample_violation ''MEDIUM'' ''OPEN'' 2 (Some 0) None) = Inr False"
  using is_overdue_cases [of "sample_violation ''CRITICAL'' ''RESOLVED'' 8 (Some 0) (Some (timedelta_hours 90))" "timedelta_hours 100" 0]
    is_overdue_cases [of "sample_violation ''CRITICAL'' ''OPEN'' 8 (Some 0) None" "timedelta_hours 25" 0]
    is_overdue_cases [of "sample_violation ''CRITICAL'' ''OPEN'' 8 (Some 0) None" "timedelta_hours 24" 0]
    is_overdue_cases [of "sample_violation ''HIGH'' ''INVESTIGATING'' 2 (Some 0) None" "timedelta_hours 73" 0]
    is_overdue_cases [of "sample_violation ''HIGH'' ''INVESTIGATING'' 2 (Some 0) None" "timedelta_hours 72" 0]
    is_overdue_cases [of "sample_violation ''MEDIUM'' ''OPEN'' 2 (Some 0) None" "timedelta_hours 1000" 0]
  by (simp add: sample_violation_def timedelta_hours_def)

section \<open>Rule evaluation, risk aggregation and persistence\<close>

lemma fold_add_violation:
  "fold add_violation vs db = db\<lparr>new_violations := new_violations db @ vs\<rparr>"
  by (induction vs arbitrary: db) (simp_all add: add_violation_def)

lemma commit_success:
  assumes "False \<notin> set (commit_outcomes db)"
  shows "commit now db = (True, flush now (db\<lparr>commit_outcomes := tl (commit_outcomes db)\<rparr>))"
proof (cases "commit_outcomes db")
  case Nil
  then have same: "db\<lparr>commit_outcomes := []\<rparr> = db"
    by (cases db) simp
  show ?thesis
    by (simp add: commit_def Nil same)
next
  case (Cons ok rest)
  with assms show ?thesis
    by (auto simp add: commit_def)
qed

lemma commit_outcomes_flush [simp]: "commit_outcomes (flush now db) = commit_outcomes db"
  by (simp add: flush_def)

lemma py_max_Max:
  assumes "xs \<noteq> []"
  shows "py_max xs = Inr (Max (set xs))"
proof (cases xs)
  case Nil
  with assms show ?thesis by simp
next
  case (Cons x rest)
  have "fold max rest x = Max (set (x # rest))"
    by (rule Max.set_eq_fold [symmetric])
  with Cons show ?thesis by simp
qed

lemma run_rules_contributions:
  "run_rules rules now t ctx =
     List.map_filter
       (\<lambda>r. case evaluate r now t ctx of
               Inr (Some v) \<Rightarrow> Some (v\<lparr>v_transaction_id := t_id t\<rparr>)
             | _ \<Rightarrow> None) rules"
  by (induction rules) (simp_all add: map_filter_simps split: sum.splits option.splits)

lemma run_rules_skip_raising:
  "run_rules (filter (\<lambda>r. \<not> isl (evaluate r now t ctx)) rules) now t ctx
     = run_rules rules now t ctx"
  by (induction rules) (auto split: sum.splits option.splits)

lemma run_rules_transaction_id:
  "v \<in> set (run_rules rules now t ctx) \<Longrightarrow> v_transaction_id v = t_id t"
  by (induction rules) (auto split: sum.splits option.splits)

lemma evaluate_transaction_cong:
  assumes "run_rules rules now t (build_evaluation_context now db t)
         = run_rules rules' now t (build_evaluation_context now db t)"
  shows "evaluate_transaction rules now db t = evaluate_transaction rules' now db t"
  using assms by (simp add: evaluate_transaction_def)

lemma evaluate_transaction_no_violation:
  assumes "run_rules rules now t (build_evaluation_context now db t) = []"
  shows "evaluate_transaction rules now db t = (Inr [], Some t, db)"
  using assms by (simp add: evaluate_transaction_def)

lemma evaluate_transaction_success:
  assumes "run_rules rules now t (build_evaluation_context now db t) = vs"
    and "vs \<noteq> []" and "False \<notin> set (commit_outcomes db)"
  shows "\<exists>db'. evaluate_transaction rules now db t =
           (Inr vs, Some (t\<lparr>t_is_flagged := True, t_compliance_status := ''UNDER_REVIEW'',
                            t_risk_score := Max (set (map v_risk_score vs))\<rparr>), db')"
proof -
  let ?db1 = "fold add_violation vs db"
  have o1: "False \<notin> set (commit_outcomes ?db1)"
    using assms(3) by (simp add: fold_add_violation)
  let ?db2 = "flush now (?db1\<lparr>commit_outcomes := tl (commit_outcomes ?db1)\<rparr>)"
  have c1: "commit now ?db1 = (True, ?db2)"
    using o1 by (rule commit_success)
  have o2: "False \<notin> set (commit_outcomes (mark_dirty t' ?db2))" for t'
    using o1 by (cases "commit_outcomes db") (auto simp add: mark_dirty_def fold_add_violation)
  have c2: "\<exists>db3. commit now (mark_dirty t' ?db2) = (True, db3)" for t'
    using commit_success [OF o2] by blast
  have m: "py_max (map v_risk_score vs) = Inr (Max (set (map v_risk_score vs)))"
    using assms(2) by (simp add: py_max_Max)
  obtain db3 where "commit now (mark_dirty
      (t\<lparr>t_is_flagged := True, t_compliance_status := ''UNDER_REVIEW'',
                      t_risk_score := Max (set (map v_risk_score vs))\<rparr>) ?db2) = (True, db3)"
    using c2 by blast
  then show ?thesis
    using assms(1,2) c1 m by (simp add: evaluate_transaction_def Let_def)
qed

lemma evaluate_transaction_returns:
  assumes "evaluate_transaction rules now db t = (Inr vs', obj, db')"
    and "run_rules rules now t (build_evaluation_context now db t) = vs" and "vs \<noteq> []"
  shows "vs' = vs \<and> obj = Some (t\<lparr>t_is_flagged := True,
                                   t_compliance_status := ''UNDER_REVIEW'',
                                   t_risk_score := Max (set (map v_risk_score vs))\<rparr>)"
proof -
  have m: "py_max (map v_risk_score vs) = Inr (Max (set (map v_risk_score vs)))"
    using assms(3) by (simp add: py_max_Max)
  show ?thesis
    using assms m
    by (auto simp add: evaluate_transaction_def Let_def split: prod.splits bool.splits if_splits)
qed

lemma evaluate_transaction_error:
  assumes "fst (evaluate_transaction rules now db t) = Inl e"
  shows "e = SQLAlchemyError \<and> False \<in> set (commit_outcomes db)"
proof -
  let ?vs = "run_rules rules now t (build_evaluation_context now db t)"
  have ne: "?vs \<noteq> []"
    using assms evaluate_transaction_no_violation [of rules now t db] by auto
  have "False \<in> set (commit_outcomes db)"
    using assms evaluate_transaction_success [OF refl ne, of] by (cases "False \<in> set (commit_outcomes db)") auto
  moreover have "e = SQLAlchemyError"
    using assms ne py_max_Max [of "map v_risk_score ?vs"]
    by (auto simp add: evaluate_transaction_def Let_def split: prod.splits bool.splits if_splits)
  ultimately show ?thesis by simp
qed

lemma sample_run:
  "run_rules (failing_rule # initialize_rules) 0 high_risk_transaction
     (build_evaluation_context 0 (sample_session [] outcomes) high_risk_transaction)
   = [(limit_violation 10000 high_risk_transaction (3 / 2))\<lparr>v_transaction_id := Some 1\<rparr>,
      (geo_violation high_risk_transaction)\<lparr>v_transaction_id := Some 1\<rparr>]"
  by (simp add: failing_rule_def initialize_rules_def limit_evaluate_def velocity_evaluate_def
      velocity_count_def velocity_total_def recent_hour_transactions_def get_recent_transactions_def
      geo_evaluate_def geo_init_def default_high_risk_countries_def build_evaluation_context_def
      sample_session_def sample_transaction_def high_risk_transaction_def py_truediv_def)

lemma sample_run_default:
  "run_rules initialize_rules 0 high_risk_transaction
     (build_evaluation_context 0 (sample_session [high_risk_transaction] outcomes)
        high_risk_transaction)
   = [(limit_violation 10000 high_risk_transaction (3 / 2))\<lparr>v_transaction_id := Some 1\<rparr>,
      (geo_violation high_risk_transaction)\<lparr>v_transaction_id := Some 1\<rparr>]"
  by (simp add: initialize_rules_def limit_evaluate_def velocity_evaluate_def
      velocity_count_def velocity_total_def recent_hour_transactions_def get_recent_transactions_def
      geo_evaluate_def geo_init_def default_high_risk_countries_def build_evaluation_context_def
      sample_session_def sample_transaction_def high_risk_transaction_def py_truediv_def
      timedelta_hours_def)

lemma sample_run_quiet:
  "run_rules initialize_rules 0 (sample_transaction ''TEST001'' 5000 0)
     (build_evaluation_context 0 (sample_session [sample_transaction ''TEST001'' 5000 0] outcomes)
        (sample_transaction ''TEST001'' 5000 0))
   = []"
  by (simp add: initialize_rules_def limit_evaluate_def velocity_evaluate_def
      velocity_count_def velocity_total_def recent_hour_transactions_def get_recent_transactions_def
      geo_evaluate_def geo_init_def default_high_risk_countries_def build_evaluation_context_def
      sample_session_def sample_transaction_def py_truediv_def timedelta_hours_def)

text \<open>
  Claim C5: a rule that raises during \<open>evaluate_transaction\<close> is skipped and the
  remaining rules are evaluated. The collected list is exactly, in registry order, the
  violations of the rules that returned one, each with \<open>transaction_id\<close> set to the
  transaction's \<open>id\<close>; the whole call behaves as if the raising rules were not in the
  registry; when no commit fails the call returns that list, and the only error the call
  can raise is the storage error of a failed commit.
\<close>

theorem rule_errors_are_skipped:
  "let ctx = build_evaluation_context now db t;
       raising = (\<lambda>r. isl (evaluate r now t ctx))
   in run_rules rules now t ctx
        = List.map_filter
            (\<lambda>r. case evaluate r now t ctx of
                    Inr (Some v) \<Rightarrow> Some (v\<lparr>v_transaction_id := t_id t\<rparr>)
                  | _ \<Rightarrow> None) rules
    \<and> evaluate_transaction rules now db t
        = evaluate_transaction (filter (\<lambda>r. \<not> raising r) rules) now db t
    \<and> (\<forall>v \<in> set (run_rules rules now t ctx). v_transaction_id v = t_id t)
    \<and> (False \<notin> set (commit_outcomes db)
         \<longrightarrow> fst (evaluate_transaction rules now db t) = Inr (run_rules rules now t ctx))
    \<and> (\<forall>e. fst (evaluate_transaction rules now db t) = Inl e
         \<longrightarrow> e = SQLAlchemyError \<and> False \<in> set (commit_outcomes db))"
proof -
  let ?ctx = "build_evaluation_context now db t"
  let ?vs = "run_rules rules now t ?ctx"
  have a: "evaluate_transaction rules now db t
        = evaluate_transaction (filter (\<lambda>r. \<not> isl (evaluate r now t ?ctx)) rules) now db t"
    by (rule evaluate_transaction_cong) (simp add: run_rules_skip_raising)
  have b: "fst (evaluate_transaction rules now db t) = Inr ?vs"
    if ok: "False \<notin> set (commit_outcomes db)"
  proof (cases "?vs = []")
    case True
    then show ?thesis by (simp add: evaluate_transaction_no_violation)
  next
    case False
    from evaluate_transaction_success [OF refl False ok] show ?thesis by auto
  qed
  show ?thesis
    unfolding Let_def
    using a b run_rules_contributions [of rules now t ?ctx]
      run_rules_transaction_id [of _ rules now t ?ctx]
      evaluate_transaction_error [of rules now db t]
    by blast
qed

text \<open>
  The registry with a raising rule in front, on a transaction of 15000 from a high-risk
  country: the call returns the limit and the geographic violation, both carrying the
  transaction's id, and equals the call without the raising rule.
\<close>

theorem rule_errors_are_skipped_witness:
  "fst (evaluate_transaction (failing_rule # initialize_rules) 0 (sample_session [] [])
          high_risk_transaction)
     = Inr [(limit_violation 10000 high_risk_transaction (3 / 2))\<lparr>v_transaction_id := Some 1\<rparr>,
            (geo_violation high_risk_transaction)\<lparr>v_transaction_id := Some 1\<rparr>]
   \<and> evaluate_transaction (failing_rule # initialize_rules) 0 (sample_session [] [])
          high_risk_transaction
     = evaluate_transaction initialize_rules 0 (sample_session [] []) high_risk_transaction"
proof -
  let ?db = "sample_session [] []"
  let ?ctx = "build_evaluation_context 0 ?db high_risk_transaction"
  note h = rule_errors_are_skipped [of 0 ?db high_risk_transaction "failing_rule # initialize_rules",
      unfolded Let_def]
  have ok: "False \<notin> set (commit_outcomes ?db)"
    by (simp add: sample_session_def)
  have keep: "filter (\<lambda>r. \<not> isl (evaluate r 0 high_risk_transaction ?ctx))
                (failing_rule # initialize_rules) = initialize_rules"
    by (simp add: failing_rule_def initialize_rules_def limit_evaluate_def velocity_evaluate_def
      velocity_count_def velocity_total_def recent_hour_transactions_def get_recent_transactions_def
      geo_evaluate_def geo_init_def default_high_risk_countries_def build_evaluation_context_def
      sample_session_def sample_transaction_def high_risk_transaction_def py_truediv_def)
  from h ok have "fst (evaluate_transaction (failing_rule # initialize_rules) 0 ?db
          high_risk_transaction)
     = Inr (run_rules (failing_rule # initialize_rules) 0 high_risk_transaction ?ctx)"
    by blast
  moreover from h have "evaluate_transaction (failing_rule # initialize_rules) 0 ?db
          high_risk_transaction
     = evaluate_transaction (filter (\<lambda>r. \<not> isl (evaluate r 0 high_risk_transaction ?ctx))
                (failing_rule # initialize_rules)) 0 ?db high_risk_transaction"
    by blast
  ultimately show ?thesis
    by (simp only: keep sample_run)
qed

text \<open>
  Claim C1: with \<open>vs\<close> the violations collected for the transaction, if \<open>vs\<close> is
  empty the call returns and leaves the transaction as it was (so an unflagged, PENDING
  transaction stays so); if \<open>vs\<close> is not empty, then whenever the call returns (as it
  does when no commit fails) the transaction has \<open>is_flagged\<close> true,
  \<open>compliance_status\<close> UNDER_REVIEW and \<open>risk_score\<close> the maximum of the
  violations' risk scores, its other fields being as they were.
\<close>

theorem risk_aggregation:
  "let vs = run_rules rules now t (build_evaluation_context now db t);
       result = evaluate_transaction rules now db t;
       obj = fst (snd result)
   in (vs = [] \<longrightarrow> fst result = Inr [] \<and> obj = Some t)
    \<and> (vs \<noteq> [] \<and> False \<notin> set (commit_outcomes db) \<longrightarrow>
          fst result = Inr vs
        \<and> (\<exists>t'. obj = Some t'
              \<and> t' = t\<lparr>t_is_flagged := True, t_compliance_status := ''UNDER_REVIEW'',
                        t_risk_score := Max (set (map v_risk_score vs))\<rparr>
              \<and> t_is_flagged t' \<and> t_compliance_status t' = ''UNDER_REVIEW''
              \<and> t_risk_score t' = Max (set (map v_risk_score vs))))
    \<and> (vs \<noteq> [] \<and> (\<exists>r. fst result = Inr r) \<longrightarrow>
          fst result = Inr vs
        \<and> (\<exists>t'. obj = Some t'
              \<and> t' = t\<lparr>t_is_flagged := True, t_compliance_status := ''UNDER_REVIEW'',
                        t_risk_score := Max (set (map v_risk_score vs))\<rparr>
              \<and> t_is_flagged t' \<and> t_compliance_status t' = ''UNDER_REVIEW''
              \<and> t_risk_score t' = Max (set (map v_risk_score vs))))"
proof -
  let ?vs = "run_rules rules now t (build_evaluation_context now db t)"
  let ?result = "evaluate_transaction rules now db t"
  let ?t' = "t\<lparr>t_is_flagged := True, t_compliance_status := ''UNDER_REVIEW'',
               t_risk_score := Max (set (map v_risk_score ?vs))\<rparr>"
  have a: "fst ?result = Inr [] \<and> fst (snd ?result) = Some t" if "?vs = []"
    using that by (simp add: evaluate_transaction_no_violation)
  have b: "fst ?result = Inr ?vs \<and> fst (snd ?result) = Some ?t'"
    if "?vs \<noteq> []" and "False \<notin> set (commit_outcomes db)"
    using evaluate_transaction_success [OF refl that] by auto
  have c: "fst ?result = Inr ?vs \<and> fst (snd ?result) = Some ?t'"
    if ne: "?vs \<noteq> []" and r: "fst ?result = Inr r" for r
  proof -
    obtain obj db' where "?result = (Inr r, obj, db')"
      using r by (cases ?result) auto
    from evaluate_transaction_returns [OF this refl ne] this show ?thesis by simp
  qed
  have f: "t_is_flagged ?t' \<and> t_compliance_status ?t' = ''UNDER_REVIEW''
         \<and> t_risk_score ?t' = Max (set (map v_risk_score ?vs))"
    by simp
  show ?thesis
    unfolding Let_def using a b c f by blast
qed

text \<open>
  15000 from a high-risk country: flagged, UNDER_REVIEW, risk score 8 (the larger of 1.5
  and 8). 5000 from Australia: no violation, the transaction is returned as it was,
  unflagged and PENDING.
\<close>

theorem risk_aggregation_witness:
  "fst (snd (evaluate_transaction initialize_rules 0
       (sample_session [high_risk_transaction] []) high_risk_transaction))
     = Some (high_risk_transaction\<lparr>t_is_flagged := True,
               t_compliance_status := ''UNDER_REVIEW'', t_risk_score := 8\<rparr>)
   \<and> fst (snd (evaluate_transaction initialize_rules 0
       (sample_session [sample_transaction ''TEST001'' 5000 0] [])
       (sample_transaction ''TEST001'' 5000 0))) = Some (sample_transaction ''TEST001'' 5000 0)
   \<and> \<not> t_is_flagged (sample_transaction ''TEST001'' 5000 0)
   \<and> t_compliance_status (sample_transaction ''TEST001'' 5000 0) = ''PENDING''"
proof -
  note hi = risk_aggregation [of initialize_rules 0 high_risk_transaction
      "sample_session [high_risk_transaction] []", unfolded Let_def sample_run_default]
  note lo = risk_aggregation [of initialize_rules 0 "sample_transaction ''TEST001'' 5000 0"
      "sample_session [sample_transaction ''TEST001'' 5000 0] []", unfolded Let_def sample_run_quiet]
  have ok: "False \<notin> set (commit_outcomes (sample_session rows []))" for rows
    by (simp add: sample_session_def)
  have m: "Max (set (map v_risk_score
       [(limit_violation 10000 high_risk_transaction (3 / 2))\<lparr>v_transaction_id := Some 1\<rparr>,
        (geo_violation high_risk_transaction)\<lparr>v_transaction_id := Some 1\<rparr>])) = 8"
    by (simp add: limit_violation_def geo_violation_def)
  from hi ok m lo show ?thesis
    by (simp add: sample_transaction_def)
qed




section \<open>Pattern detection\<close>

lemma get_transactions_length:
  "length (get_transactions_by_account db account_id limit offset (Some s) None)
     \<le> length (filter (\<lambda>t. t_account_id t = account_id \<and> t_transaction_timestamp t \<ge> s)
                 (db_transactions db))"
  by (simp add: get_transactions_by_account_def Let_def conj_commute)

text \<open>
  Claim C9, as stated, with a transaction dated in the future: four transactions in the
  last 30 days and a fifth one dated a day ahead are five rows for the query, which has a
  start date only; the detector reports the AMOUNT and the TEMPORAL pattern and stores
  both.
\<close>

theorem future_rows_count_for_detection:
  "length (filter (\<lambda>t. t_account_id t = ''ACC123''
                      \<and> timedelta_hours 24 - timedelta_days 30 \<le> t_transaction_timestamp t
                      \<and> t_transaction_timestamp t \<le> timedelta_hours 24)
             (map night_transaction [0, 1, 2, 3, timedelta_hours 24])) = 4
   \<and> map_sum id (map p_pattern_type)
       (fst (detect_suspicious_patterns (timedelta_hours 24)
          (sample_session (map night_transaction [0, 1, 2, 3, timedelta_hours 24]) [])
          ''ACC123''))
     = Inr [''AMOUNT'', ''TEMPORAL'']
   \<and> map p_pattern_type
       (db_patterns (snd (detect_suspicious_patterns (timedelta_hours 24)
          (sample_session (map night_transaction [0, 1, 2, 3, timedelta_hours 24]) [])
          ''ACC123'')))
     = [''AMOUNT'', ''TEMPORAL'']"
  by (simp add: detect_suspicious_patterns_def get_transactions_by_account_def
      sample_session_def night_transaction_def sample_transaction_def timedelta_hours_def
      timedelta_days_def detect_velocity_pattern_def detect_amount_pattern_def
      detect_time_pattern_def max_hourly_count_def hourly_counts_def hour_key_def
      hour_of_day_def opt_list_def commit_def flush_def add_pattern_def Let_def)

text \<open>
  Claim C9, amended: for an account with fewer than 5 transactions dated from 30 days ago
  on (rows of the account with a timestamp of \<open>now - 30 days\<close> or later, those dated
  in the future included), \<open>detect_suspicious_patterns\<close> returns the empty list,
  whatever the transactions look like, and leaves the session as it was: nothing is added
  and nothing is committed.
\<close>

theorem insufficient_data_no_patterns:
  assumes "length (filter (\<lambda>t. t_account_id t = account_id
                                \<and> t_transaction_timestamp t \<ge> now - timedelta_days 30)
                     (db_transactions db)) < 5"
  shows "detect_suspicious_patterns now db account_id = (Inr [], db)"
proof -
  have "length (get_transactions_by_account db account_id 100 0
                  (Some (now - timedelta_days 30)) None) < 5"
    using assms get_transactions_length [of db account_id 100 0 "now - timedelta_days 30"]
    by linarith
  then show ?thesis
    by (simp add: detect_suspicious_patterns_def Let_def)
qed

text \<open>
  Four transactions of 9500 at night give no pattern and an untouched session; a fifth
  one of the same kind makes the detector report the AMOUNT and the TEMPORAL pattern.
\<close>

theorem insufficient_data_no_patterns_witness:
  "detect_suspicious_patterns (timedelta_hours 24)
      (sample_session (map night_transaction [0, 1, 2, 3]) []) ''ACC123''
    = (Inr [], sample_session (map night_transaction [0, 1, 2, 3]) [])"
proof -
  have "length (filter (\<lambda>t. t_account_id t = ''ACC123''
                  \<and> t_transaction_timestamp t \<ge> timedelta_hours 24 - timedelta_days 30)
           (db_transactions (sample_session (map night_transaction [0, 1, 2, 3]) []))) < 5"
    by (simp add: sample_session_def night_transaction_def sample_transaction_def
        timedelta_hours_def timedelta_days_def)
  then show ?thesis
    by (rule insufficient_data_no_patterns)
qed

lemma five_transactions_detected:
  "map_sum id (map p_pattern_type)
     (fst (detect_suspicious_patterns (timedelta_hours 24)
        (sample_session (map night_transaction [0, 1, 2, 3, 4]) []) ''ACC123''))
   = Inr [''AMOUNT'', ''TEMPORAL'']"
  by (simp add: detect_suspicious_patterns_def get_transactions_by_account_def
      sample_session_def night_transaction_def sample_transaction_def timedelta_hours_def
      timedelta_days_def detect_velocity_pattern_def detect_amount_pattern_def
      detect_time_pattern_def max_hourly_count_def hourly_counts_def hour_key_def
      hour_of_day_def opt_list_def commit_def flush_def add_pattern_def Let_def)

section \<open>The dashboard\<close>

lemma count_overdue_defined:
  assumes "\<forall>v \<in> set vs. \<not> isl (is_overdue now v)"
  shows "count_overdue now vs = Inr (count_where (\<lambda>v. is_overdue now v = Inr True) vs)"
  using assms
proof (induction vs)
  case Nil
  then show ?case by (simp add: count_where_def)
next
  case (Cons v vs)
  then obtain b where b: "is_overdue now v = Inr b"
    by (cases "is_overdue now v") auto
  with Cons show ?case
    by (simp add: count_where_def)
qed

lemma count_where_nonneg: "0 \<le> count_where cond vs"
  by (simp add: count_where_def)

lemma raw_compliance_score_formula:
  assumes "vs \<noteq> []" and "0 \<le> k"
  shows "raw_compliance_score vs k =
           max 0 (max 0 (100 - (sum_list (map v_risk_score vs) / (real (length vs) * 10)) * 100)
                    - 5 * real_of_int k)"
proof -
  have pos: "real (length vs) * 10 > 0"
    using assms(1) by simp
  show ?thesis
  proof (cases "k > 0")
    case True
    with pos show ?thesis
      by (simp add: raw_compliance_score_def Let_def mult.commute)
  next
    case False
    with assms(2) have "k = 0" by simp
    with pos show ?thesis
      by (simp add: raw_compliance_score_def Let_def)
  qed
qed

lemma resolution_spans_filter:
  "resolution_spans vs =
     map (\<lambda>v. (the (v_detected_at v), the (v_resolved_at v)))
       (filter (\<lambda>v. v_resolved_at v \<noteq> None \<and> v_detected_at v \<noteq> None) vs)"
  by (induction vs)
     (auto simp add: resolution_spans_def map_filter_simps split: option.splits)

lemma average_resolution_time_formula:
  "average_resolution_time vs =
     (let rs = filter (\<lambda>v. v_resolved_at v \<noteq> None \<and> v_detected_at v \<noteq> None) vs
      in if rs = [] then 0
         else sum_list (map (\<lambda>v. hours_between (the (v_resolved_at v)) (the (v_detected_at v))) rs)
                / real (length rs))"
  by (simp add: average_resolution_time_def resolution_spans_filter Let_def comp_def)

text \<open>
  Claim C8, as stated, on one resolved violation of risk score 1.2346: the formula gives
  87.654, the dashboard returns 87.65, since the endpoint rounds the score (and the
  average resolution time) to two decimals.
\<close>

theorem dashboard_rounds_the_score:
  "get_compliance_dashboard 0
     [sample_violation ''MEDIUM'' ''RESOLVED'' (12346 / 10000) (Some 0) (Some (timedelta_hours 2))]
   = Inr \<lparr> total_violations = 1, critical_violations = 0, high_violations = 0,
           medium_violations = 1, low_violations = 0, open_violations = 0,
           resolved_violations = 1, overdue_violations = 0,
           average_resolution_time_hours = 2, compliance_score = 8765 / 100 \<rparr>
   \<and> max 0 (100 - (v_risk_score (sample_violation ''MEDIUM'' ''RESOLVED'' (12346 / 10000)
                       (Some 0) (Some (timedelta_hours 2))) / (1 * 10)) * 100) - 5 * 0
       = (87654 / 1000 :: real)"
  by (simp add: get_compliance_dashboard_def is_overdue_def sample_violation_def
      count_where_def average_resolution_time_def resolution_spans_def map_filter_simps
      hours_between_def timedelta_hours_def raw_compliance_score_def py_round2_def
      round_half_even_def Let_def)

text \<open>
  Claim C8, amended by the rounding: with no violation the dashboard returns a compliance
  score of 100 and every count and the average resolution time 0. Over a non-empty
  violation list on which the overdue check is defined, it returns the counts by severity,
  the open count (status OPEN or INVESTIGATING), the resolved count (RESOLVED or CLOSED),
  the overdue count, the average resolution time in hours over the violations with both
  \<open>detected_at\<close> and \<open>resolved_at\<close>, rounded to two decimals, and the compliance
  score \<open>max 0 (100 - (sum of risk scores / (N * 10)) * 100)\<close> less 5 per overdue
  violation, floored at 0 and rounded to two decimals.
\<close>

theorem dashboard_summary:
  "get_compliance_dashboard now [] =
      Inr \<lparr> total_violations = 0, critical_violations = 0, high_violations = 0,
            medium_violations = 0, low_violations = 0, open_violations = 0,
            resolved_violations = 0, overdue_violations = 0,
            average_resolution_time_hours = 0, compliance_score = 100 \<rparr>
   \<and> (vs \<noteq> [] \<and> (\<forall>v \<in> set vs. \<not> isl (is_overdue now v)) \<longrightarrow>
        (\<exists>d. get_compliance_dashboard now vs = Inr d
           \<and> total_violations d = int (length vs)
           \<and> critical_violations d = int (length (filter (\<lambda>v. v_severity v = ''CRITICAL'') vs))
           \<and> high_violations d = int (length (filter (\<lambda>v. v_severity v = ''HIGH'') vs))
           \<and> medium_violations d = int (length (filter (\<lambda>v. v_severity v = ''MEDIUM'') vs))
           \<and> low_violations d = int (length (filter (\<lambda>v. v_severity v = ''LOW'') vs))
           \<and> open_violations d
               = int (length (filter (\<lambda>v. v_status v = Some ''OPEN''
                                         \<or> v_status v = Some ''INVESTIGATING'') vs))
           \<and> resolved_violations d
               = int (length (filter (\<lambda>v. v_status v = Some ''RESOLVED''
                                         \<or> v_status v = Some ''CLOSED'') vs))
           \<and> overdue_violations d
               = int (length (filter (\<lambda>v. is_overdue now v = Inr True) vs))
           \<and> average_resolution_time_hours d
               = py_round2
                   (let rs = filter (\<lambda>v. v_resolved_at v \<noteq> None \<and> v_detected_at v \<noteq> None) vs
                    in if rs = [] then 0
                       else sum_list (map (\<lambda>v. hours_between (the (v_resolved_at v))
                                                  (the (v_detected_at v))) rs)
                              / real (length rs))
           \<and> compliance_score d
               = py_round2
                   (max 0 (max 0 (100 - (sum_list (map v_risk_score vs)
                                           / (real (length vs) * 10)) * 100)
                             - 5 * real_of_int (overdue_violations d)))))"
proof (intro conjI impI)
  show "get_compliance_dashboard now [] =
      Inr \<lparr> total_violations = 0, critical_violations = 0, high_violations = 0,
            medium_violations = 0, low_violations = 0, open_violations = 0,
            resolved_violations = 0, overdue_violations = 0,
            average_resolution_time_hours = 0, compliance_score = 100 \<rparr>"
    by (simp add: get_compliance_dashboard_def)
next
  assume a: "vs \<noteq> [] \<and> (\<forall>v \<in> set vs. \<not> isl (is_overdue now v))"
  let ?k = "count_where (\<lambda>v. is_overdue now v = Inr True) vs"
  have k: "count_overdue now vs = Inr ?k"
    using a by (simp add: count_overdue_defined)
  have s: "raw_compliance_score vs ?k =
           max 0 (max 0 (100 - (sum_list (map v_risk_score vs) / (real (length vs) * 10)) * 100)
                    - 5 * real_of_int ?k)"
    using a by (intro raw_compliance_score_formula count_where_nonneg) simp
  show "\<exists>d. get_compliance_dashboard now vs = Inr d
           \<and> total_violations d = int (length vs)
           \<and> critical_violations d = int (length (filter (\<lambda>v. v_severity v = ''CRITICAL'') vs))
           \<and> high_violations d = int (length (filter (\<lambda>v. v_severity v = ''HIGH'') vs))
           \<and> medium_violations d = int (length (filter (\<lambda>v. v_severity v = ''MEDIUM'') vs))
           \<and> low_violations d = int (length (filter (\<lambda>v. v_severity v = ''LOW'') vs))
           \<and> open_violations d
               = int (length (filter (\<lambda>v. v_status v = Some ''OPEN''
                                         \<or> v_status v = Some ''INVESTIGATING'') vs))
           \<and> resolved_violations d
               = int (length (filter (\<lambda>v. v_status v = Some ''RESOLVED''
                                         \<or> v_status v = Some ''CLOSED'') vs))
           \<and> overdue_violations d
               = int (length (filter (\<lambda>v. is_overdue now v = Inr True) vs))
           \<and> average_resolution_time_hours d
               = py_round2
                   (let rs = filter (\<lambda>v. v_resolved_at v \<noteq> None \<and> v_detected_at v \<noteq> None) vs
                    in if rs = [] then 0
                       else sum_list (map (\<lambda>v. hours_between (the (v_resolved_at v))
                                                  (the (v_detected_at v))) rs)
                              / real (length rs))
           \<and> compliance_score d
               = py_round2
                   (max 0 (max 0 (100 - (sum_list (map v_risk_score vs)
                                           / (real (length vs) * 10)) * 100)
                             - 5 * real_of_int (overdue_violations d)))"
    using a k s
    by (simp add: get_compliance_dashboard_def average_resolution_time_formula
        count_where_def)
qed

text \<open>
  A CRITICAL violation of risk score 8, open and detected 25 hours ago, with a LOW one of
  risk score 2 resolved after 3 hours: one overdue, average resolution 3 hours, score
  \<open>100 - 50 - 5 = 45\<close>.
\<close>

theorem dashboard_summary_witness:
  "\<exists>d. get_compliance_dashboard (timedelta_hours 25)
          [sample_violation ''CRITICAL'' ''OPEN'' 8 (Some 0) None,
           sample_violation ''LOW'' ''RESOLVED'' 2 (Some 0) (Some (timedelta_hours 3))] = Inr d
      \<and> total_violations d = 2
      \<and> critical_violations d = 1
      \<and> low_violations d = 1
      \<and> open_violations d = 1
      \<and> resolved_violations d = 1
      \<and> overdue_violations d = 1
      \<and> average_resolution_time_hours d = 3
      \<and> compliance_score d = 45"
proof -
  let ?now = "timedelta_hours 25"
  let ?vs = "[sample_violation ''CRITICAL'' ''OPEN'' 8 (Some 0) None,
              sample_violation ''LOW'' ''RESOLVED'' 2 (Some 0) (Some (timedelta_hours 3))]"
  have ov: "is_overdue ?now (sample_violation ''CRITICAL'' ''OPEN'' 8 (Some 0) None) = Inr True"
    "is_overdue ?now (sample_violation ''LOW'' ''RESOLVED'' 2 (Some 0) (Some (timedelta_hours 3)))
       = Inr False"
    by (simp_all add: is_overdue_def is_critical_def sample_violation_def hours_between_def
        timedelta_hours_def)
  have pre: "?vs \<noteq> [] \<and> (\<forall>v \<in> set ?vs. \<not> isl (is_overdue ?now v))"
    by (simp add: ov)
  from dashboard_summary [of ?now ?vs] pre obtain d where
    d: "get_compliance_dashboard ?now ?vs = Inr d"
      "total_violations d = int (length ?vs)"
      "critical_violations d = int (length (filter (\<lambda>v. v_severity v = ''CRITICAL'') ?vs))"
      "low_violations d = int (length (filter (\<lambda>v. v_severity v = ''LOW'') ?vs))"
      "open_violations d
         = int (length (filter (\<lambda>v. v_status v = Some ''OPEN''
                                   \<or> v_status v = Some ''INVESTIGATING'') ?vs))"
      "resolved_violations d
         = int (length (filter (\<lambda>v. v_status v = Some ''RESOLVED''
                                   \<or> v_status v = Some ''CLOSED'') ?vs))"
      "overdue_violations d = int (length (filter (\<lambda>v. is_overdue ?now v = Inr True) ?vs))"
      "average_resolution_time_hours d
         = py_round2
             (let rs = filter (\<lambda>v. v_resolved_at v \<noteq> None \<and> v_detected_at v \<noteq> None) ?vs
              in if rs = [] then 0
                 else sum_list (map (\<lambda>v. hours_between (the (v_resolved_at v))
                                            (the (v_detected_at v))) rs)
                        / real (length rs))"
      "compliance_score d
         = py_round2
             (max 0 (max 0 (100 - (sum_list (map v_risk_score ?vs)
                                     / (real (length ?vs) * 10)) * 100)
                       - 5 * real_of_int (overdue_violations d)))"
    by blast
  have o: "overdue_violations d = 1"
    using d(7) by (simp add: ov)
  have "total_violations d = 2" using d(2) by simp
  moreover have "critical_violations d = 1" using d(3) by (simp add: sample_violation_def)
  moreover have "low_violations d = 1" using d(4) by (simp add: sample_violation_def)
  moreover have "open_violations d = 1" using d(5) by (simp add: sample_violation_def)
  moreover have "resolved_violations d = 1" using d(6) by (simp add: sample_violation_def)
  moreover have "average_resolution_time_hours d = 3"
    using d(8) by (simp add: sample_violation_def hours_between_def timedelta_hours_def
        py_round2_def round_half_even_def Let_def)
  moreover have "compliance_score d = 45"
    using d(9) by (simp add: o sample_violation_def py_round2_def round_half_even_def Let_def)
  ultimately show ?thesis
    using d(1) o by blast
qed

section \<open>Transaction creation\<close>

lemma validate_without_currency:
  "validate_transaction_data data =
     (case validate_transaction_data (data\<lparr>d_currency := Absent\<rparr>) of
        Inl e \<Rightarrow> Inl e
      | Inr _ \<Rightarrow>
          (case d_currency data of
             Absent \<Rightarrow> Inr ()
           | Null \<Rightarrow> Inl TypeError
           | Present c \<Rightarrow>
               if length c \<noteq> 3 then Inl (DataQualityViolation ''currency'') else Inr ()))"
  by (simp add: validate_transaction_data_def)

lemma length_fold_insert:
  "length (fold (\<lambda>t rows. insert_transaction rows t) ts rows) = length rows + length ts"
  by (induction ts arbitrary: rows) (simp_all add: insert_transaction_def)

lemma length_fold_update:
  "length (fold (\<lambda>t rows. update_transaction rows t) ts rows) = length rows"
  by (induction ts arbitrary: rows) (simp_all add: update_transaction_def)

lemma refresh_after_insert:
  assumes "False \<notin> set (commit_outcomes db)"
  shows "\<exists>db1 n. commit now (add_transaction t db) = (True, db1)
           \<and> refresh db1 t = Some (t\<lparr>t_id := Some n\<rparr>)
           \<and> False \<notin> set (commit_outcomes db1)
           \<and> t\<lparr>t_id := Some n\<rparr> \<in> set (db_transactions db1)
           \<and> length (db_transactions db1)
               = length (db_transactions db) + length (new_transactions db) + 1
           \<and> new_transactions db1 = [] \<and> dirty_transactions db1 = []"
proof -
  let ?db0 = "add_transaction t db"
  have o: "False \<notin> set (commit_outcomes ?db0)"
    using assms by (simp add: add_transaction_def)
  let ?db1 = "flush now (?db0\<lparr>commit_outcomes := tl (commit_outcomes ?db0)\<rparr>)"
  have c: "commit now ?db0 = (True, ?db1)"
    using o by (rule commit_success)
  let ?base = "fold (\<lambda>t rows. update_transaction rows t) (dirty_transactions db)
                 (db_transactions db)"
  let ?rows = "fold (\<lambda>t rows. insert_transaction rows t) (new_transactions db) ?base"
  let ?stored = "t\<lparr>t_id := Some (int (length ?rows) + 1)\<rparr>"
  have rows: "db_transactions ?db1 = ?rows @ [?stored]"
    by (simp add: flush_def add_transaction_def insert_transaction_def)
  have r: "refresh ?db1 t = Some ?stored"
    by (simp add: refresh_def rows)
  have "set (tl (commit_outcomes db)) \<subseteq> set (commit_outcomes db)"
    by (cases "commit_outcomes db") auto
  with assms have o1: "False \<notin> set (commit_outcomes ?db1)"
    by (auto simp add: add_transaction_def)
  have m: "?stored \<in> set (db_transactions ?db1)"
    by (simp add: rows)
  have l: "length (db_transactions ?db1)
             = length (db_transactions db) + length (new_transactions db) + 1"
    by (simp add: rows length_fold_insert length_fold_update)
  have e: "new_transactions ?db1 = [] \<and> dirty_transactions ?db1 = []"
    by (simp add: flush_def)
  from c r o1 m l e show ?thesis by blast
qed

lemma evaluate_transaction_success_rows:
  assumes "run_rules rules now t (build_evaluation_context now db t) = vs"
    and "vs \<noteq> []" and "False \<notin> set (commit_outcomes db)"
  shows "\<exists>db'. evaluate_transaction rules now db t =
           (Inr vs, Some (t\<lparr>t_is_flagged := True, t_compliance_status := ''UNDER_REVIEW'',
                            t_risk_score := Max (set (map v_risk_score vs))\<rparr>), db')
         \<and> db_transactions db'
             = update_transaction (db_transactions (flush now db))
                 (t\<lparr>t_is_flagged := True, t_compliance_status := ''UNDER_REVIEW'',
                    t_risk_score := Max (set (map v_risk_score vs))\<rparr>)"
proof -
  have m: "py_max (map v_risk_score vs) = Inr (Max (set (map v_risk_score vs)))"
    using assms(2) by (simp add: py_max_Max)
  consider "commit_outcomes db = []" | "commit_outcomes db = [True]"
    | rest where "commit_outcomes db = True # True # rest"
    using assms(3) by (cases "commit_outcomes db"; cases "tl (commit_outcomes db)") auto
  then show ?thesis
    using assms(1,2) m
    by cases
       (auto simp add: evaluate_transaction_def Let_def fold_add_violation commit_def
          flush_def mark_dirty_def)
qed

lemma evaluate_transaction_stored:
  assumes "False \<notin> set (commit_outcomes db)" and "t \<in> set (db_transactions db)"
    and "new_transactions db = []" and "dirty_transactions db = []"
  shows "\<exists>vs t' db' f s r. evaluate_transaction rules now db t = (Inr vs, Some t', db')
           \<and> t' = t\<lparr>t_is_flagged := f, t_compliance_status := s, t_risk_score := r\<rparr>
           \<and> t' \<in> set (db_transactions db')
           \<and> length (db_transactions db') = length (db_transactions db)"
proof (cases "run_rules rules now t (build_evaluation_context now db t) = []")
  case True
  have "t = t\<lparr>t_is_flagged := t_is_flagged t, t_compliance_status := t_compliance_status t,
             t_risk_score := t_risk_score t\<rparr>"
    by simp
  with True assms(2) show ?thesis
    unfolding evaluate_transaction_no_violation [OF True] by blast
next
  case False
  let ?vs = "run_rules rules now t (build_evaluation_context now db t)"
  let ?t' = "t\<lparr>t_is_flagged := True, t_compliance_status := ''UNDER_REVIEW'',
               t_risk_score := Max (set (map v_risk_score ?vs))\<rparr>"
  from evaluate_transaction_success_rows [OF refl False assms(1)] obtain db' where
    e: "evaluate_transaction rules now db t = (Inr ?vs, Some ?t', db')"
    and rows: "db_transactions db' = update_transaction (db_transactions (flush now db)) ?t'"
    by blast
  have same: "db_transactions (flush now db) = db_transactions db"
    using assms(3,4) by (simp add: flush_def)
  have "?t' \<in> set (db_transactions db')"
    using assms(2) by (force simp add: rows same update_transaction_def)
  moreover have "length (db_transactions db') = length (db_transactions db)"
    by (simp add: rows same update_transaction_def)
  ultimately show ?thesis
    using e by blast
qed

lemma create_transaction_result:
  assumes "validate_transaction_data data = Inr ()"
    and "False \<notin> set (commit_outcomes db)"
  shows "\<exists>t db' db1 stored vs n f s r.
           create_transaction rules now uuid data db = (Inr t, db')
         \<and> commit now (add_transaction (new_transaction now uuid data) db) = (True, db1)
         \<and> refresh db1 (new_transaction now uuid data) = Some stored
         \<and> evaluate_transaction rules now db1 stored = (Inr vs, Some t, db')
         \<and> t = (new_transaction now uuid data)
                 \<lparr>t_id := Some n, t_is_flagged := f, t_compliance_status := s,
                  t_risk_score := r\<rparr>
         \<and> t \<in> set (db_transactions db')
         \<and> length (db_transactions db')
             = length (db_transactions db) + length (new_transactions db) + 1"
proof -
  let ?t = "new_transaction now uuid data"
  from refresh_after_insert [OF assms(2), of now ?t] obtain db1 n where
    c: "commit now (add_transaction ?t db) = (True, db1)"
    and r: "refresh db1 ?t = Some (?t\<lparr>t_id := Some n\<rparr>)"
    and o: "False \<notin> set (commit_outcomes db1)"
    and m: "?t\<lparr>t_id := Some n\<rparr> \<in> set (db_transactions db1)"
    and l: "length (db_transactions db1)
              = length (db_transactions db) + length (new_transactions db) + 1"
    and e: "new_transactions db1 = []" "dirty_transactions db1 = []"
    by blast
  from evaluate_transaction_stored [OF o m e, of rules now] obtain vs t' db' f s q where
    ev: "evaluate_transaction rules now db1 (?t\<lparr>t_id := Some n\<rparr>) = (Inr vs, Some t', db')"
    and t': "t' = ?t\<lparr>t_id := Some n, t_is_flagged := f, t_compliance_status := s,
                     t_risk_score := q\<rparr>"
    and m': "t' \<in> set (db_transactions db')"
    and l': "length (db_transactions db') = length (db_transactions db1)"
    by auto
  have cr: "create_transaction rules now uuid data db = (Inr t', db')"
    using assms(1) c r ev by (simp add: create_transaction_def Let_def)
  from cr c r ev t' m' l l' show ?thesis
    by (intro exI conjI) (assumption | simp)+
qed

lemma geo_domestic:
  assumes "t_location_country t = Some ''AUS''"
  shows "evaluate (APRAGeographicRule (geo_init None)) now t ctx = Inr None"
  using assms by (simp add: geo_evaluate_def geo_init_def default_high_risk_countries_def)

lemma validated_fields:
  assumes "validate_transaction_data data = Inr ()"
  shows "d_account_id data = Present (t_account_id (new_transaction now uuid data))
       \<and> d_transaction_type data = Present (t_transaction_type (new_transaction now uuid data))
       \<and> (d_amount data = Present (PyFloat (t_amount (new_transaction now uuid data)))
          \<or> (\<exists>n. d_amount data = Present (PyInt n)
                 \<and> t_amount (new_transaction now uuid data) = real_of_int n))
       \<and> 0 < t_amount (new_transaction now uuid data)"
  using assms
  by (auto simp add: validate_transaction_data_def new_transaction_def
      split: entry.splits py_scalar.splits if_splits)

text \<open>
  Claim C10: for data whose required fields (\<open>account_id\<close>, \<open>amount\<close>,
  \<open>transaction_type\<close>) pass the validation, the currency check applies only when the
  key is present: without the key the validation passes, with a currency it passes
  exactly when the code has three letters, and a currency of another length makes
  \<open>create_transaction\<close> raise the data quality error and store nothing (as does any
  validation error). When the validation passes and no commit fails,
  \<open>create_transaction\<close> returns the transaction that the evaluation of the inserted
  row returned. It is a row of the transaction table, which has grown by it; it has a
  primary key and the supplied account, amount, type and timestamp; its currency is the
  supplied one, or AUD if the key was omitted, its channel the supplied one, or ONLINE,
  and its country the supplied one, or AUS. A transaction created without a country
  never triggers the service's Geographic Rule.
\<close>

theorem create_transaction_defaults:
  assumes "validate_transaction_data (data\<lparr>d_currency := Absent\<rparr>) = Inr ()"
  shows "(d_currency data = Absent \<longrightarrow> validate_transaction_data data = Inr ())
       \<and> (\<forall>c. d_currency data = Present c \<longrightarrow>
             (validate_transaction_data data = Inr () \<longleftrightarrow> length c = 3)
           \<and> (length c \<noteq> 3 \<longrightarrow>
                create_transaction rules now uuid data db
                  = (Inl (DataQualityViolation ''currency''), db)))
       \<and> (\<forall>e. validate_transaction_data data = Inl e \<longrightarrow>
             create_transaction rules now uuid data db = (Inl e, db))
       \<and> (validate_transaction_data data = Inr () \<and> False \<notin> set (commit_outcomes db) \<longrightarrow>
            (\<exists>t db'. create_transaction rules now uuid data db = (Inr t, db')
               \<and> t \<in> set (db_transactions db')
               \<and> length (db_transactions db')
                   = length (db_transactions db) + length (new_transactions db) + 1
               \<and> t_id t \<noteq> None
               \<and> t_transaction_id t = uuid
               \<and> d_account_id data = Present (t_account_id t)
               \<and> d_transaction_type data = Present (t_transaction_type t)
               \<and> (d_amount data = Present (PyFloat (t_amount t))
                  \<or> (\<exists>n. d_amount data = Present (PyInt n) \<and> t_amount t = real_of_int n))
               \<and> t_currency t = (case d_currency data of Present c \<Rightarrow> c | _ \<Rightarrow> ''AUD'')
               \<and> t_transaction_channel t
                   = Some (case d_transaction_channel data of
                             None \<Rightarrow> ''ONLINE'' | Some c \<Rightarrow> c)
               \<and> t_location_country t
                   = Some (case d_location_country data of None \<Rightarrow> ''AUS'' | Some c \<Rightarrow> c)
               \<and> t_transaction_timestamp t
                   = (case d_transaction_timestamp data of None \<Rightarrow> now | Some ts \<Rightarrow> ts)
               \<and> (\<exists>db1 stored vs.
                     commit now (add_transaction (new_transaction now uuid data) db)
                       = (True, db1)
                   \<and> refresh db1 (new_transaction now uuid data) = Some stored
                   \<and> evaluate_transaction rules now db1 stored = (Inr vs, Some t, db'))
               \<and> (d_location_country data = None \<longrightarrow>
                    (\<forall>ctx. evaluate (APRAGeographicRule (geo_init None)) now t ctx
                             = Inr None))))"
proof (intro conjI allI impI)
  assume "d_currency data = Absent"
  with assms show "validate_transaction_data data = Inr ()"
    by (simp add: validate_without_currency [of data])
next
  fix c assume "d_currency data = Present c"
  with assms show "validate_transaction_data data = Inr () \<longleftrightarrow> length c = 3"
    by (simp add: validate_without_currency [of data])
next
  fix c assume "d_currency data = Present c" and "length c \<noteq> 3"
  with assms have "validate_transaction_data data = Inl (DataQualityViolation ''currency'')"
    by (simp add: validate_without_currency [of data])
  then show "create_transaction rules now uuid data db
                  = (Inl (DataQualityViolation ''currency''), db)"
    by (simp add: create_transaction_def)
next
  fix e assume "validate_transaction_data data = Inl e"
  then show "create_transaction rules now uuid data db = (Inl e, db)"
    by (simp add: create_transaction_def)
next
  assume a: "validate_transaction_data data = Inr () \<and> False \<notin> set (commit_outcomes db)"
  let ?new = "new_transaction now uuid data"
  from create_transaction_result [of data db rules now uuid] a
  obtain t db' db1 stored vs n f s r where
    c: "create_transaction rules now uuid data db = (Inr t, db')"
    and k: "commit now (add_transaction ?new db) = (True, db1)"
    and rf: "refresh db1 ?new = Some stored"
    and ev: "evaluate_transaction rules now db1 stored = (Inr vs, Some t, db')"
    and t: "t = ?new\<lparr>t_id := Some n, t_is_flagged := f, t_compliance_status := s,
                     t_risk_score := r\<rparr>"
    and m: "t \<in> set (db_transactions db')"
    and l: "length (db_transactions db')
              = length (db_transactions db) + length (new_transactions db) + 1"
    by blast
  note v = validated_fields [of data now uuid]
  have f1: "t_id t \<noteq> None" "t_transaction_id t = uuid"
    by (simp_all add: t new_transaction_def)
  have f2: "d_account_id data = Present (t_account_id t)"
    "d_transaction_type data = Present (t_transaction_type t)"
    "d_amount data = Present (PyFloat (t_amount t))
       \<or> (\<exists>n. d_amount data = Present (PyInt n) \<and> t_amount t = real_of_int n)"
    using v a by (simp_all add: t)
  have f3: "t_currency t = (case d_currency data of Present c \<Rightarrow> c | _ \<Rightarrow> ''AUD'')"
    "t_transaction_channel t
       = Some (case d_transaction_channel data of None \<Rightarrow> ''ONLINE'' | Some c \<Rightarrow> c)"
    "t_location_country t
       = Some (case d_location_country data of None \<Rightarrow> ''AUS'' | Some c \<Rightarrow> c)"
    "t_transaction_timestamp t
       = (case d_transaction_timestamp data of None \<Rightarrow> now | Some ts \<Rightarrow> ts)"
    by (simp_all add: t new_transaction_def get_default_def)
  have f4: "\<exists>db1 stored vs.
              commit now (add_transaction ?new db) = (True, db1)
            \<and> refresh db1 ?new = Some stored
            \<and> evaluate_transaction rules now db1 stored = (Inr vs, Some t, db')"
    using k rf ev by blast
  have f5: "d_location_country data = None \<longrightarrow>
              (\<forall>ctx. evaluate (APRAGeographicRule (geo_init None)) now t ctx = Inr None)"
    using f3(3) geo_domestic [of t now] by simp
  show "\<exists>t db'. create_transaction rules now uuid data db = (Inr t, db')
               \<and> t \<in> set (db_transactions db')
               \<and> length (db_transactions db')
                   = length (db_transactions db) + length (new_transactions db) + 1
               \<and> t_id t \<noteq> None
               \<and> t_transaction_id t = uuid
               \<and> d_account_id data = Present (t_account_id t)
               \<and> d_transaction_type data = Present (t_transaction_type t)
               \<and> (d_amount data = Present (PyFloat (t_amount t))
                  \<or> (\<exists>n. d_amount data = Present (PyInt n) \<and> t_amount t = real_of_int n))
               \<and> t_currency t = (case d_currency data of Present c \<Rightarrow> c | _ \<Rightarrow> ''AUD'')
               \<and> t_transaction_channel t
                   = Some (case d_transaction_channel data of
                             None \<Rightarrow> ''ONLINE'' | Some c \<Rightarrow> c)
               \<and> t_location_country t
                   = Some (case d_location_country data of None \<Rightarrow> ''AUS'' | Some c \<Rightarrow> c)
               \<and> t_transaction_timestamp t
                   = (case d_transaction_timestamp data of None \<Rightarrow> now | Some ts \<Rightarrow> ts)
               \<and> (\<exists>db1 stored vs.
                     commit now (add_transaction (new_transaction now uuid data) db)
                       = (True, db1)
                   \<and> refresh db1 (new_transaction now uuid data) = Some stored
                   \<and> evaluate_transaction rules now db1 stored = (Inr vs, Some t, db'))
               \<and> (d_location_country data = None \<longrightarrow>
                    (\<forall>ctx. evaluate (APRAGeographicRule (geo_init None)) now t ctx
                             = Inr None))"
    by (rule exI [of _ t], rule exI [of _ db'])
       (intro conjI c m l f1 f2 f3 f4 f5)
qed

text \<open>
  The dictionary with the required keys only is valid and is created with AUD, ONLINE
  and AUS as the one row of the table, and the Geographic Rule returns nothing on it; the
  same dictionary with the currency \<open>INVALID\<close> is rejected and nothing is stored,
  with \<open>USD\<close> it is valid.
\<close>

theorem create_transaction_defaults_witness:
  "validate_transaction_data minimal_transaction_data = Inr ()
   \<and> create_transaction initialize_rules 0 ''TXN001''
       (minimal_transaction_data\<lparr>d_currency := Present ''INVALID''\<rparr>) (sample_session [] [])
       = (Inl (DataQualityViolation ''currency''), sample_session [] [])
   \<and> validate_transaction_data (minimal_transaction_data\<lparr>d_currency := Present ''USD''\<rparr>)
       = Inr ()
   \<and> (\<exists>t db'. create_transaction initialize_rules 0 ''TXN001'' minimal_transaction_data
                 (sample_session [] []) = (Inr t, db')
         \<and> t \<in> set (db_transactions db')
         \<and> length (db_transactions db') = 1
         \<and> t_account_id t = ''ACC123''
         \<and> t_amount t = 5000
         \<and> t_transaction_type t = ''DEBIT''
         \<and> t_currency t = ''AUD''
         \<and> t_transaction_channel t = Some ''ONLINE''
         \<and> t_location_country t = Some ''AUS''
         \<and> evaluate (APRAGeographicRule (geo_init None)) 0 t (sample_context []) = Inr None)"
proof -
  let ?d = minimal_transaction_data
  let ?db = "sample_session [] []"
  have req: "validate_transaction_data (?d\<lparr>d_currency := c, d_currency := Absent\<rparr>) = Inr ()"
    for c
    by (simp add: validate_transaction_data_def minimal_transaction_data_def valid_types_def)
  have req0: "validate_transaction_data (?d\<lparr>d_currency := Absent\<rparr>) = Inr ()"
    by (simp add: validate_transaction_data_def minimal_transaction_data_def valid_types_def)
  note plain = create_transaction_defaults [OF req0, of initialize_rules 0 "''TXN001''" ?db]
  note bad = create_transaction_defaults [OF req [of "Present ''INVALID''"],
      of initialize_rules 0 "''TXN001''" ?db]
  note good = create_transaction_defaults [OF req [of "Present ''USD''"],
      of initialize_rules 0 "''TXN001''" ?db]
  have abs: "d_currency ?d = Absent" "d_transaction_channel ?d = None"
    "d_location_country ?d = None" "d_account_id ?d = Present ''ACC123''"
    "d_amount ?d = Present (PyFloat 5000)" "d_transaction_type ?d = Present ''DEBIT''"
    by (simp_all add: minimal_transaction_data_def)
  have v: "validate_transaction_data ?d = Inr ()"
    using plain abs(1) by blast
  have ok: "False \<notin> set (commit_outcomes ?db)"
    and empty: "db_transactions ?db = []" "new_transactions ?db = []"
    by (simp_all add: sample_session_def)
  note ex = plain [THEN conjunct2, THEN conjunct2, THEN conjunct2, THEN mp, OF conjI [OF v ok]]
  have "\<exists>t db'. create_transaction initialize_rules 0 ''TXN001'' ?d ?db = (Inr t, db')
         \<and> t \<in> set (db_transactions db')
         \<and> length (db_transactions db') = 1
         \<and> t_account_id t = ''ACC123''
         \<and> t_amount t = 5000
         \<and> t_transaction_type t = ''DEBIT''
         \<and> t_currency t = ''AUD''
         \<and> t_transaction_channel t = Some ''ONLINE''
         \<and> t_location_country t = Some ''AUS''
         \<and> evaluate (APRAGeographicRule (geo_init None)) 0 t (sample_context []) = Inr None"
    using ex unfolding abs empty by auto
  moreover have "create_transaction initialize_rules 0 ''TXN001''
       (?d\<lparr>d_currency := Present ''INVALID''\<rparr>) ?db
       = (Inl (DataQualityViolation ''currency''), ?db)"
    using bad by simp
  moreover have "validate_transaction_data (?d\<lparr>d_currency := Present ''USD''\<rparr>) = Inr ()"
    using good by simp
  ultimately show ?thesis using v by blast
qed

end
